theory Spec2Isabelle
  imports Complex_Main
begin

section \<open>Linear regression by gradient descent on the Keras backend\<close>

text \<open>
  The notebook \<^verbatim>\<open>01_Linear_Regression.ipynb\<close> builds a computational graph with
  the Keras backend (\<^verbatim>\<open>K.placeholder\<close>, \<^verbatim>\<open>K.variable\<close>, \<^verbatim>\<open>K.square\<close>,
  \<^verbatim>\<open>K.mean\<close>, \<^verbatim>\<open>K.gradients\<close>, \<^verbatim>\<open>K.function\<close>) and calls the compiled function
  200 times. The graph is embedded as a datatype of expressions, the backend as an
  evaluator over it, and the notebook's cells as definitions that keep their names.

  Numbers are idealised: a backend scalar is an exact real or \<open>NaN\<close>. Rounding,
  overflow and infinities are outside the model; \<open>NaN\<close> is kept because the mean of an
  empty tensor is \<open>0 / 0\<close>, which the backend returns as a value and does not raise.
  A run that diverges overflows to infinity in the backend and then records \<open>NaN\<close>;
  here its numbers only grow. Statements about the sign or the size of a recorded loss
  are therefore phrased so that they also hold of \<open>NaN\<close> and of an infinite loss, or
  carry a margin above what rounding can move.
\<close>

subsection \<open>Scalars and tensors\<close>

datatype fl = Num real | NaN

fun fl_add :: "fl \<Rightarrow> fl \<Rightarrow> fl" where
  "fl_add (Num a) (Num c) = Num (a + c)"
| "fl_add _ _ = NaN"

fun fl_sub :: "fl \<Rightarrow> fl \<Rightarrow> fl" where
  "fl_sub (Num a) (Num c) = Num (a - c)"
| "fl_sub _ _ = NaN"

fun fl_mul :: "fl \<Rightarrow> fl \<Rightarrow> fl" where
  "fl_mul (Num a) (Num c) = Num (a * c)"
| "fl_mul _ _ = NaN"

text \<open>Division by an element count: \<open>0 / 0\<close> is \<open>NaN\<close>. A non-zero numerator over
  a zero count does not occur (the sum of no elements is 0), and is \<open>NaN\<close> here too.\<close>

fun fl_div_count :: "fl \<Rightarrow> nat \<Rightarrow> fl" where
  "fl_div_count (Num a) n = (if n = 0 then NaN else Num (a / real n))"
| "fl_div_count NaN n = NaN"

definition fl_sum :: "fl list \<Rightarrow> fl" where
  "fl_sum as = foldr fl_add as (Num 0)"

text \<open>Comparison: every comparison with \<open>NaN\<close> is false.\<close>

fun fl_le :: "fl \<Rightarrow> fl \<Rightarrow> bool" where
  "fl_le (Num a) (Num c) = (a \<le> c)"
| "fl_le _ _ = False"

text \<open>A tensor of rank 0 or 1: the notebook feeds one-dimensional arrays and keeps
  scalar variables.\<close>

datatype tensor = Scalar fl | Vector "fl list"

datatype variable = Vw | Vb | Vlr

datatype placeholder = Px | Ptarget

datatype error = IncompatibleShapes | NotFed placeholder | NotAVariable | IndexError

text \<open>Element-wise binary operations broadcast as numpy does: a scalar or a vector of
  length 1 is stretched to the other operand's length; two vectors of different
  lengths, neither of length 1, are rejected when the operation runs.\<close>

fun broadcast :: "(fl \<Rightarrow> fl \<Rightarrow> fl) \<Rightarrow> tensor \<Rightarrow> tensor \<Rightarrow> error + tensor" where
  "broadcast f (Scalar a) (Scalar c) = Inr (Scalar (f a c))"
| "broadcast f (Scalar a) (Vector cs) = Inr (Vector (map (f a) cs))"
| "broadcast f (Vector as) (Scalar c) = Inr (Vector (map (\<lambda>a. f a c) as))"
| "broadcast f (Vector as) (Vector cs) =
     (if length as = length cs then Inr (Vector (map2 f as cs))
      else if length as = 1 then Inr (Vector (map (f (as ! 0)) cs))
      else if length cs = 1 then Inr (Vector (map (\<lambda>a. f a (cs ! 0)) as))
      else Inl IncompatibleShapes)"

fun elements :: "tensor \<Rightarrow> fl list" where
  "elements (Scalar a) = [a]"
| "elements (Vector as) = as"

text \<open>\<^verbatim>\<open>K.mean\<close> without an axis: the sum of all elements over their count.\<close>

definition mean_tensor :: "tensor \<Rightarrow> tensor" where
  "mean_tensor t = Scalar (fl_div_count (fl_sum (elements t)) (length (elements t)))"

text \<open>The gradient of a broadcast operand sums the incoming gradient back to the
  operand's shape (the backend's reduction over the broadcast axes).\<close>

fun sum_to_shape :: "tensor \<Rightarrow> tensor \<Rightarrow> error + tensor" where
  "sum_to_shape g (Scalar a) = Inr (Scalar (fl_sum (elements g)))"
| "sum_to_shape (Scalar c) (Vector as) =
     (if length as = 1 then Inr (Vector [c]) else Inl IncompatibleShapes)"
| "sum_to_shape (Vector gs) (Vector as) =
     (if length gs = length as then Inr (Vector gs)
      else if length as = 1 then Inr (Vector [fl_sum gs])
      else Inl IncompatibleShapes)"

text \<open>The gradient of a mean: the incoming scalar gradient, tiled to the shape of the
  mean's argument, each element divided by the argument's element count. On an empty
  argument the result is the empty vector.\<close>

fun mean_grad :: "tensor \<Rightarrow> tensor \<Rightarrow> error + tensor" where
  "mean_grad (Scalar g) (Scalar a) = Inr (Scalar (fl_div_count g 1))"
| "mean_grad (Scalar g) (Vector as) =
     Inr (Vector (map (\<lambda>_. fl_div_count g (length as)) as))"
| "mean_grad (Vector gs) t = Inl IncompatibleShapes"

subsection \<open>The computational graph\<close>

datatype expr =
    Var variable
  | Ph placeholder
  | Const real
  | Add expr expr
  | Sub expr expr
  | Mul expr expr
  | Neg expr
  | Square expr
  | Mean expr
  | SumTo expr expr
  | MeanGrad expr expr

type_synonym store = "variable \<Rightarrow> fl"

type_synonym feed = "placeholder \<Rightarrow> tensor option"

fun bind2 :: "(tensor \<Rightarrow> tensor \<Rightarrow> error + tensor) \<Rightarrow> error + tensor \<Rightarrow> error + tensor
    \<Rightarrow> error + tensor" where
  "bind2 f (Inl e) r = Inl e"
| "bind2 f (Inr u) (Inl e) = Inl e"
| "bind2 f (Inr u) (Inr v) = f u v"

fun bind1 :: "(tensor \<Rightarrow> tensor) \<Rightarrow> error + tensor \<Rightarrow> error + tensor" where
  "bind1 f (Inl e) = Inl e"
| "bind1 f (Inr u) = Inr (f u)"

fun map_tensor :: "(fl \<Rightarrow> fl) \<Rightarrow> tensor \<Rightarrow> tensor" where
  "map_tensor f (Scalar a) = Scalar (f a)"
| "map_tensor f (Vector as) = Vector (map f as)"

fun eval :: "store \<Rightarrow> feed \<Rightarrow> expr \<Rightarrow> error + tensor" where
  "eval s fd (Var v) = Inr (Scalar (s v))"
| "eval s fd (Ph p) = (case fd p of None \<Rightarrow> Inl (NotFed p) | Some t \<Rightarrow> Inr t)"
| "eval s fd (Const c) = Inr (Scalar (Num c))"
| "eval s fd (Add e1 e2) = bind2 (broadcast fl_add) (eval s fd e1) (eval s fd e2)"
| "eval s fd (Sub e1 e2) = bind2 (broadcast fl_sub) (eval s fd e1) (eval s fd e2)"
| "eval s fd (Mul e1 e2) = bind2 (broadcast fl_mul) (eval s fd e1) (eval s fd e2)"
| "eval s fd (Neg e1) = bind1 (map_tensor (fl_sub (Num 0))) (eval s fd e1)"
| "eval s fd (Square e1) = bind1 (map_tensor (\<lambda>a. fl_mul a a)) (eval s fd e1)"
| "eval s fd (Mean e1) = bind1 mean_tensor (eval s fd e1)"
| "eval s fd (SumTo g e1) = bind2 sum_to_shape (eval s fd g) (eval s fd e1)"
| "eval s fd (MeanGrad g e1) = bind2 mean_grad (eval s fd g) (eval s fd e1)"

text \<open>\<^verbatim>\<open>K.gradients(loss, variables)\<close>: reverse accumulation. \<open>backprop e g v\<close> is the
  contribution to the gradient with respect to the variable \<open>v\<close> that flows through
  the node \<open>e\<close> when \<open>g\<close> is the gradient arriving at \<open>e\<close>. \<open>SumTo\<close> and \<open>MeanGrad\<close>
  are the nodes of gradient graphs; the notebook differentiates once, so their own
  gradients are never asked for.\<close>

fun backprop :: "expr \<Rightarrow> expr \<Rightarrow> variable \<Rightarrow> expr" where
  "backprop (Var u) g v = (if u = v then g else Const 0)"
| "backprop (Ph p) g v = Const 0"
| "backprop (Const c) g v = Const 0"
| "backprop (Add e1 e2) g v =
     Add (backprop e1 (SumTo g e1) v) (backprop e2 (SumTo g e2) v)"
| "backprop (Sub e1 e2) g v =
     Add (backprop e1 (SumTo g e1) v) (backprop e2 (Neg (SumTo g e2)) v)"
| "backprop (Mul e1 e2) g v =
     Add (backprop e1 (SumTo (Mul g e2) e1) v) (backprop e2 (SumTo (Mul g e1) e2) v)"
| "backprop (Neg e1) g v = backprop e1 (Neg g) v"
| "backprop (Square e1) g v = backprop e1 (Mul g (Mul (Const 2) e1)) v"
| "backprop (Mean e1) g v = backprop e1 (MeanGrad g e1) v"
| "backprop (SumTo g' e1) g v = Const 0"
| "backprop (MeanGrad g' e1) g v = Const 0"

fun variable_of :: "expr \<Rightarrow> variable option" where
  "variable_of (Var v) = Some v"
| "variable_of _ = None"

definition K_gradients :: "expr \<Rightarrow> expr list \<Rightarrow> expr list" where
  "K_gradients l vs =
     map (\<lambda>e. case variable_of e of Some v \<Rightarrow> backprop l (Const 1) v | None \<Rightarrow> Const 0) vs"

text \<open>\<^verbatim>\<open>K.function(inputs, outputs, updates)\<close>: a call feeds the placeholders,
  evaluates the outputs and every update's new value on the variables as they are
  before the call, and then assigns all new values. \<open>K_function_call\<close> is the whole
  effect of a call: what it returns or raises, and the variables it leaves.
  \<open>K_function\<close> is the call as its caller sees it: the outputs with the new variables,
  or the error raised.\<close>

fun eval_list :: "store \<Rightarrow> feed \<Rightarrow> expr list \<Rightarrow> error + tensor list" where
  "eval_list s fd [] = Inr []"
| "eval_list s fd (e # es) =
     (case eval s fd e of
        Inl err \<Rightarrow> Inl err
      | Inr t \<Rightarrow> (case eval_list s fd es of Inl err \<Rightarrow> Inl err | Inr ts \<Rightarrow> Inr (t # ts)))"

text \<open>The assignments run in order. One that fails stops the call; the store it
  returns holds the assignments made before it.\<close>

fun assign :: "store \<Rightarrow> (expr \<times> tensor) list \<Rightarrow> error option \<times> store" where
  "assign s [] = (None, s)"
| "assign s ((Var v, Scalar a) # rest) = assign (s(v := a)) rest"
| "assign s ((Var v, Vector as) # rest) = (Some IncompatibleShapes, s)"
| "assign s ((e, t) # rest) = (Some NotAVariable, s)"

text \<open>The feed dictionary of a call pairs the input placeholders with the values
  passed, in order; a later pair for the same placeholder replaces an earlier one.\<close>

definition feed_dict :: "expr list \<Rightarrow> tensor list \<Rightarrow> feed" where
  "feed_dict inputs vals =
     foldl (\<lambda>fd (e, t). case e of Ph p \<Rightarrow> fd(p \<mapsto> t) | _ \<Rightarrow> fd) Map.empty (zip inputs vals)"

definition K_function_call ::
  "expr list \<Rightarrow> expr list \<Rightarrow> (expr \<times> expr) list \<Rightarrow> store \<Rightarrow> tensor list
     \<Rightarrow> (error + tensor list) \<times> store" where
  "K_function_call inputs outputs upds s vals =
     (let fd = feed_dict inputs vals
      in case eval_list s fd outputs of
           Inl err \<Rightarrow> (Inl err, s)
         | Inr outs \<Rightarrow>
             (case eval_list s fd (map snd upds) of
                Inl err \<Rightarrow> (Inl err, s)
              | Inr news \<Rightarrow>
                  (case assign s (zip (map fst upds) news) of
                     (Some err, s') \<Rightarrow> (Inl err, s')
                   | (None, s') \<Rightarrow> (Inr outs, s'))))"

definition K_function ::
  "expr list \<Rightarrow> expr list \<Rightarrow> (expr \<times> expr) list \<Rightarrow> store \<Rightarrow> tensor list
     \<Rightarrow> error + (tensor list \<times> store)" where
  "K_function inputs outputs upds s vals =
     (case K_function_call inputs outputs upds s vals of
        (Inl err, s') \<Rightarrow> Inl err
      | (Inr outs, s') \<Rightarrow> Inr (outs, s'))"

subsection \<open>The notebook's cells\<close>

text \<open>\<^verbatim>\<open>x = K.placeholder(); target = K.placeholder(); lr = K.variable(0.1);
  w = K.variable(np.random.rand()); b = K.variable(np.random.rand())\<close>.
  The initial values live in the store (\<open>initial_store\<close> below).\<close>

definition x :: expr where "x = Ph Px"
definition target :: expr where "target = Ph Ptarget"
definition lr :: expr where "lr = Var Vlr"
definition w :: expr where "w = Var Vw"
definition b :: expr where "b = Var Vb"

text \<open>\<^verbatim>\<open>y = w * x + b; loss = K.mean(K.square(y-target))\<close>\<close>

definition y :: expr where "y = Add (Mul w x) b"
definition loss :: expr where "loss = Mean (Square (Sub y target))"

text \<open>\<^verbatim>\<open>grads = K.gradients(loss, [w,b]);
  updates = [[w, w-lr*grads[0]], [b, b-lr*grads[1]]]\<close>\<close>

definition grads :: "expr list" where "grads = K_gradients loss [w, b]"

definition updates :: "(expr \<times> expr) list" where
  "updates = [(w, Sub w (Mul lr (grads ! 0))), (b, Sub b (Mul lr (grads ! 1)))]"

text \<open>\<^verbatim>\<open>train = K.function(inputs=[x, target], outputs=[loss], updates=updates)\<close>\<close>

definition train :: "store \<Rightarrow> tensor list \<Rightarrow> error + (tensor list \<times> store)" where
  "train = K_function [x, target] [loss] updates"

text \<open>The same call with the variables it leaves, also when it raises.\<close>

definition train_call :: "store \<Rightarrow> tensor list \<Rightarrow> (error + tensor list) \<times> store" where
  "train_call = K_function_call [x, target] [loss] updates"

text \<open>The store after the first cell: \<open>lr\<close> is 0.1, \<open>w\<close> and \<open>b\<close> hold the two draws
  of \<^verbatim>\<open>np.random.rand()\<close>, which are parameters here.\<close>

definition store_of :: "real \<Rightarrow> real \<Rightarrow> real \<Rightarrow> store" where
  "store_of w0 b0 eta = (\<lambda>v. case v of Vw \<Rightarrow> Num w0 | Vb \<Rightarrow> Num b0 | Vlr \<Rightarrow> Num eta)"

definition initial_store :: "real \<Rightarrow> real \<Rightarrow> store" where
  "initial_store w0 b0 = store_of w0 b0 (1 / 10)"

text \<open>\<^verbatim>\<open>np_target = 0.96*np_x + 0.24\<close>\<close>

definition np_array :: "real list \<Rightarrow> tensor" where
  "np_array as = Vector (map Num as)"

definition reference_target :: "real list \<Rightarrow> real list" where
  "reference_target as = map (\<lambda>a. 96 / 100 * a + 24 / 100) as"

text \<open>The training cell:
  \<^verbatim>\<open>loss_history = []
  for epoch in range(200):
      current_loss = train([np_x, np_target])[0]
      loss_history.append(current_loss)
      if epoch % 20 == 0:
          print "Loss: %.03f, w, b: [%.02f, %.02f]" % (current_loss, K.eval(w), K.eval(b))\<close>
  The state of the run is the variables, the history and the lines printed (as the
  values they show). An error raised by \<open>train\<close>, or by indexing its result, ends the
  run.\<close>

record run =
  vars :: store
  loss_history :: "tensor list"
  printed :: "(tensor \<times> fl \<times> fl) list"

fun training_loop :: "nat list \<Rightarrow> tensor \<Rightarrow> tensor \<Rightarrow> run \<Rightarrow> error + run" where
  "training_loop [] np_x np_target r = Inr r"
| "training_loop (epoch # epochs) np_x np_target r =
     (case train (vars r) [np_x, np_target] of
        Inl err \<Rightarrow> Inl err
      | Inr (outs, s') \<Rightarrow>
          (case outs of
             [] \<Rightarrow> Inl IndexError
           | current_loss # _ \<Rightarrow>
               training_loop epochs np_x np_target
                 \<lparr>vars = s',
                  loss_history = loss_history r @ [current_loss],
                  printed = (if epoch mod 20 = 0
                             then printed r @ [(current_loss, s' Vw, s' Vb)]
                             else printed r)\<rparr>))"

definition training :: "nat \<Rightarrow> store \<Rightarrow> tensor \<Rightarrow> tensor \<Rightarrow> error + run" where
  "training epochs s np_x np_target =
     training_loop [0..<epochs] np_x np_target \<lparr>vars = s, loss_history = [], printed = []\<rparr>"

text \<open>The notebook's run: 200 epochs from the drawn parameters \<open>w0\<close>, \<open>b0\<close> on the
  drawn inputs \<open>np_x\<close> and their targets.\<close>

definition notebook_run :: "real \<Rightarrow> real \<Rightarrow> real list \<Rightarrow> error + run" where
  "notebook_run w0 b0 np_x =
     training 200 (initial_store w0 b0) (np_array np_x) (np_array (reference_target np_x))"

text \<open>The feed that a call \<open>train [u, v]\<close> builds: \<open>x\<close> is fed \<open>u\<close> and \<open>target\<close> is
  fed \<open>v\<close>.\<close>

definition feed_of :: "tensor \<Rightarrow> tensor \<Rightarrow> feed" where
  "feed_of u v = [Px \<mapsto> u, Ptarget \<mapsto> v]"

text \<open>A recorded loss is non-negative when each of its elements compares \<open>0 \<le>\<close>.\<close>

definition tensor_ge_zero :: "tensor \<Rightarrow> bool" where
  "tensor_ge_zero t = list_all (fl_le (Num 0)) (elements t)"

text \<open>A recorded loss is never negative when each of its elements is \<open>NaN\<close> or compares
  \<open>0 \<le>\<close> (as an infinite loss does in the backend).\<close>

definition fl_nan_or_ge_zero :: "fl \<Rightarrow> bool" where
  "fl_nan_or_ge_zero a = (case a of NaN \<Rightarrow> True | Num c \<Rightarrow> 0 \<le> c)"

definition tensor_nan_or_ge_zero :: "tensor \<Rightarrow> bool" where
  "tensor_nan_or_ge_zero t = list_all fl_nan_or_ge_zero (elements t)"

subsection \<open>The specification's formulas\<close>

text \<open>The specification describes one step analytically, over real sequences:
  \<open>prediction_i = weight * x_i + bias\<close>, \<open>loss = mean_i ((prediction_i - y_i)^2)\<close>,
  \<open>grad_weight = mean_i (2 * (prediction_i - y_i) * x_i)\<close>,
  \<open>grad_bias = mean_i (2 * (prediction_i - y_i))\<close>, and the update
  \<open>weight - learning_rate * grad_weight\<close>, \<open>bias - learning_rate * grad_bias\<close>.
  These definitions follow the specification's words; the theorems compare them with
  the graph above.\<close>

definition mean_list :: "real list \<Rightarrow> real" where
  "mean_list rs = sum_list rs / real (length rs)"

definition spec_loss :: "real \<Rightarrow> real \<Rightarrow> real list \<Rightarrow> real list \<Rightarrow> real" where
  "spec_loss w0 b0 as ts = mean_list (map2 (\<lambda>a t. ((w0 * a + b0) - t)\<^sup>2) as ts)"

definition spec_grad_weight :: "real \<Rightarrow> real \<Rightarrow> real list \<Rightarrow> real list \<Rightarrow> real" where
  "spec_grad_weight w0 b0 as ts = mean_list (map2 (\<lambda>a t. 2 * ((w0 * a + b0) - t) * a) as ts)"

definition spec_grad_bias :: "real \<Rightarrow> real \<Rightarrow> real list \<Rightarrow> real list \<Rightarrow> real" where
  "spec_grad_bias w0 b0 as ts = mean_list (map2 (\<lambda>a t. 2 * ((w0 * a + b0) - t)) as ts)"

definition spec_step :: "real \<times> real \<Rightarrow> real \<Rightarrow> real list \<Rightarrow> real list \<Rightarrow> (real \<times> real) \<times> real" where
  "spec_step p eta as ts =
     ((fst p - eta * spec_grad_weight (fst p) (snd p) as ts,
       snd p - eta * spec_grad_bias (fst p) (snd p) as ts),
      spec_loss (fst p) (snd p) as ts)"

text \<open>The parameters after \<open>n\<close> steps of the specification, each step starting from
  the parameters the previous one returned.\<close>

fun spec_params :: "nat \<Rightarrow> real \<times> real \<Rightarrow> real \<Rightarrow> real list \<Rightarrow> real list \<Rightarrow> real \<times> real" where
  "spec_params 0 p eta as ts = p"
| "spec_params (Suc n) p eta as ts = spec_params n (fst (spec_step p eta as ts)) eta as ts"

text \<open>The losses those \<open>n\<close> steps return, in order.\<close>

fun spec_losses :: "nat \<Rightarrow> real \<times> real \<Rightarrow> real \<Rightarrow> real list \<Rightarrow> real list \<Rightarrow> real list" where
  "spec_losses 0 p eta as ts = []"
| "spec_losses (Suc n) p eta as ts =
     snd (spec_step p eta as ts) # spec_losses n (fst (spec_step p eta as ts)) eta as ts"

text \<open>The squared distance of a parameter pair from the generating pair
  \<open>(0.96, 0.24)\<close> of the reference data.\<close>

definition sq_distance :: "real \<times> real \<Rightarrow> real" where
  "sq_distance p = (fst p - 96 / 100)\<^sup>2 + (snd p - 24 / 100)\<^sup>2"

text \<open>A sample of 1000 inputs in \<open>[0, 1)\<close> with mean \<open>1 / 2\<close> and mean square
  \<open>79 / 240\<close> (a uniform sample has about \<open>1 / 2\<close> and \<open>1 / 3\<close>), on which the slow
  direction of gradient descent is rational.\<close>

definition slow_xs :: "real list" where
  "slow_xs = replicate 300 (1 / 6) @ replicate 300 (5 / 6) @ replicate 100 (1 / 4)
             @ replicate 100 (3 / 4) @ replicate 200 (1 / 2)"

text \<open>The specification's \<open>train\<close>: \<open>epochs\<close> calls of the step function in sequence,
  the variables threaded from each call into the next, each call's loss collected in
  order. The step function is the notebook's \<open>train\<close>; nothing is printed.\<close>

fun spec_train :: "nat \<Rightarrow> store \<Rightarrow> tensor \<Rightarrow> tensor \<Rightarrow> error + (tensor list \<times> store)" where
  "spec_train 0 s u v = Inr ([], s)"
| "spec_train (Suc n) s u v =
     (case train s [u, v] of
        Inl err \<Rightarrow> Inl err
      | Inr (outs, s') \<Rightarrow>
          (case outs of
             [] \<Rightarrow> Inl IndexError
           | l # _ \<Rightarrow>
               (case spec_train n s' u v of
                  Inl err \<Rightarrow> Inl err
                | Inr (ls, s'') \<Rightarrow> Inr (l # ls, s''))))"

section \<open>Evaluating the graph on numeric batches\<close>

lemma fl_sum_Num: "fl_sum (map Num rs) = Num (sum_list rs)"
  by (induction rs) (simp_all add: fl_sum_def)

lemma broadcast_scalar_vector:
  assumes "\<And>a c. f (Num a) (Num c) = Num (g a c)"
  shows "broadcast f (Scalar (Num c)) (Vector (map Num as)) =
    Inr (Vector (map Num (map (g c) as)))"
  by (simp add: assms)

lemma broadcast_vector_scalar:
  assumes "\<And>a c. f (Num a) (Num c) = Num (g a c)"
  shows "broadcast f (Vector (map Num as)) (Scalar (Num c)) =
    Inr (Vector (map Num (map (\<lambda>a. g a c) as)))"
  by (simp add: assms)

lemma broadcast_vector_vector:
  assumes "\<And>a c. f (Num a) (Num c) = Num (g a c)" and "length as = length cs"
  shows "broadcast f (Vector (map Num as)) (Vector (map Num cs)) =
    Inr (Vector (map Num (map2 g as cs)))"
  using assms by (simp add: zip_map_map split_beta)

lemmas broadcast_Num =
  broadcast_scalar_vector[of fl_mul "(*)", OF fl_mul.simps(1)]
  broadcast_scalar_vector[of fl_add "(+)", OF fl_add.simps(1)]
  broadcast_scalar_vector[of fl_sub "(-)", OF fl_sub.simps(1)]
  broadcast_vector_scalar[of fl_mul "(*)", OF fl_mul.simps(1)]
  broadcast_vector_scalar[of fl_add "(+)", OF fl_add.simps(1)]
  broadcast_vector_scalar[of fl_sub "(-)", OF fl_sub.simps(1)]
  broadcast_vector_vector[of fl_mul "(*)", OF fl_mul.simps(1)]
  broadcast_vector_vector[of fl_add "(+)", OF fl_add.simps(1)]
  broadcast_vector_vector[of fl_sub "(-)", OF fl_sub.simps(1)]

lemma map_tensor_square_Num:
  "map_tensor (\<lambda>a. fl_mul a a) (Vector (map Num as)) = Vector (map Num (map (\<lambda>a. a * a) as))"
  by simp

lemma mean_tensor_Num:
  "as \<noteq> [] \<Longrightarrow>
    mean_tensor (Vector (map Num as)) = Scalar (Num (sum_list as / real (length as)))"
  by (simp add: mean_tensor_def fl_sum_Num)

lemma mean_grad_Num:
  "as \<noteq> [] \<Longrightarrow> mean_grad (Scalar (Num g)) (Vector (map Num as)) =
     Inr (Vector (map Num (map (\<lambda>_. g / real (length as)) as)))"
  by simp

lemma sum_to_shape_same:
  "length gs = length as \<Longrightarrow>
    sum_to_shape (Vector (map Num gs)) (Vector (map Num as)) = Inr (Vector (map Num gs))"
  by simp

lemma sum_to_shape_scalar:
  "sum_to_shape (Vector (map Num gs)) (Scalar a) = Inr (Scalar (Num (sum_list gs)))"
  by (simp add: fl_sum_Num)

lemmas graph_defs = x_def target_def lr_def w_def b_def y_def loss_def grads_def updates_def
  K_gradients_def

lemmas eval_simps = graph_defs np_array_def broadcast_Num map_tensor_square_Num mean_tensor_Num
  mean_grad_Num sum_to_shape_same sum_to_shape_scalar zip_eq_Nil_iff

lemma sum_list_scale: "sum_list (map (\<lambda>r. r * c) rs) = sum_list rs * (c::real)"
  by (induction rs) (simp_all add: algebra_simps)

lemma loss_sum:
  assumes "length as = length ts"
  shows "sum_list (map (\<lambda>a. a * a) (map2 (-) (map (\<lambda>a. a + b0) (map ((*) w0) as)) ts))
       / real (length ts)
     = spec_loss w0 b0 as ts"
proof -
  have "map (\<lambda>a. a * a) (map2 (-) (map (\<lambda>a. a + b0) (map ((*) w0) as)) ts)
      = map2 (\<lambda>a t. ((w0 * a + b0) - t)\<^sup>2) as ts"
    using assms by (intro nth_equalityI) (simp_all add: power2_eq_square)
  then show ?thesis
    using assms by (simp add: spec_loss_def mean_list_def)
qed

lemma grad_weight_sum:
  assumes "length as = length ts"
  shows "sum_list (map2 (*) (map2 (*) (map (\<lambda>_. 1 / real (length ts))
             (map (\<lambda>a. a * a) (map2 (-) (map (\<lambda>a. a + b0) (map ((*) w0) as)) ts)))
           (map ((*) 2) (map2 (-) (map (\<lambda>a. a + b0) (map ((*) w0) as)) ts))) as)
     = spec_grad_weight w0 b0 as ts"
proof -
  have eq: "map2 (*) (map2 (*) (map (\<lambda>_. 1 / real (length ts))
             (map (\<lambda>a. a * a) (map2 (-) (map (\<lambda>a. a + b0) (map ((*) w0) as)) ts)))
           (map ((*) 2) (map2 (-) (map (\<lambda>a. a + b0) (map ((*) w0) as)) ts))) as
      = map (\<lambda>r. r * (1 / real (length ts)))
          (map2 (\<lambda>a t. 2 * ((w0 * a + b0) - t) * a) as ts)"
    using assms by (intro nth_equalityI) simp_all
  show ?thesis
    unfolding eq sum_list_scale spec_grad_weight_def mean_list_def using assms by simp
qed

lemma grad_bias_sum:
  assumes "length as = length ts"
  shows "sum_list (map2 (*) (map (\<lambda>_. 1 / real (length ts))
             (map (\<lambda>a. a * a) (map2 (-) (map (\<lambda>a. a + b0) (map ((*) w0) as)) ts)))
           (map ((*) 2) (map2 (-) (map (\<lambda>a. a + b0) (map ((*) w0) as)) ts)))
     = spec_grad_bias w0 b0 as ts"
proof -
  have eq: "map2 (*) (map (\<lambda>_. 1 / real (length ts))
             (map (\<lambda>a. a * a) (map2 (-) (map (\<lambda>a. a + b0) (map ((*) w0) as)) ts)))
           (map ((*) 2) (map2 (-) (map (\<lambda>a. a + b0) (map ((*) w0) as)) ts))
      = map (\<lambda>r. r * (1 / real (length ts))) (map2 (\<lambda>a t. 2 * ((w0 * a + b0) - t)) as ts)"
    using assms by (intro nth_equalityI) simp_all
  show ?thesis
    unfolding eq sum_list_scale spec_grad_bias_def mean_list_def using assms by simp
qed

lemma eval_loss:
  assumes "length as = length ts" "as \<noteq> []" "s Vw = Num w0" "s Vb = Num b0"
    "fd Px = Some (np_array as)" "fd Ptarget = Some (np_array ts)"
  shows "eval s fd loss = Inr (Scalar (Num (spec_loss w0 b0 as ts)))"
proof -
  from assms have "ts \<noteq> []" by auto
  with assms show ?thesis
    by (simp add: eval_simps loss_sum
      del: broadcast.simps(2,3,4) map_map map_tensor.simps mean_grad.simps sum_to_shape.simps)
qed

lemma eval_grad_w:
  assumes "length as = length ts" "as \<noteq> []" "s Vw = Num w0" "s Vb = Num b0"
    "fd Px = Some (np_array as)" "fd Ptarget = Some (np_array ts)"
  shows "eval s fd (grads ! 0) = Inr (Scalar (Num (spec_grad_weight w0 b0 as ts)))"
proof -
  from assms have "ts \<noteq> []" by auto
  with assms show ?thesis
    by (simp add: eval_simps grad_weight_sum
      del: broadcast.simps(2,3,4) map_map map_tensor.simps mean_grad.simps sum_to_shape.simps)
qed

lemma eval_grad_b:
  assumes "length as = length ts" "as \<noteq> []" "s Vw = Num w0" "s Vb = Num b0"
    "fd Px = Some (np_array as)" "fd Ptarget = Some (np_array ts)"
  shows "eval s fd (grads ! 1) = Inr (Scalar (Num (spec_grad_bias w0 b0 as ts)))"
proof -
  from assms have "ts \<noteq> []" by auto
  with assms show ?thesis
    by (simp add: eval_simps grad_bias_sum
      del: broadcast.simps(2,3,4) map_map map_tensor.simps mean_grad.simps sum_to_shape.simps)
qed

lemma feed_of_simps [simp]:
  "feed_of u v Px = Some u" "feed_of u v Ptarget = Some v"
  by (simp_all add: feed_of_def)

lemma train_unfold:
  "train s [u, v] =
     (case eval s (feed_of u v) loss of
        Inl err \<Rightarrow> Inl err
      | Inr l \<Rightarrow>
         (case eval_list s (feed_of u v) (map snd updates) of
            Inl err \<Rightarrow> Inl err
          | Inr news \<Rightarrow>
             (case assign s (zip (map fst updates) news) of
                (Some err, s') \<Rightarrow> Inl err
              | (None, s') \<Rightarrow> Inr ([l], s'))))"
  by (simp add: train_def K_function_def K_function_call_def feed_dict_def feed_of_def
      x_def target_def split: sum.splits option.splits prod.splits)

lemma train_call_unfold:
  "train_call s [u, v] =
     (case eval s (feed_of u v) loss of
        Inl err \<Rightarrow> (Inl err, s)
      | Inr l \<Rightarrow>
         (case eval_list s (feed_of u v) (map snd updates) of
            Inl err \<Rightarrow> (Inl err, s)
          | Inr news \<Rightarrow>
             (case assign s (zip (map fst updates) news) of
                (Some err, s') \<Rightarrow> (Inl err, s')
              | (None, s') \<Rightarrow> (Inr [l], s'))))"
  by (simp add: train_call_def K_function_call_def feed_dict_def feed_of_def
      x_def target_def split: sum.splits option.splits prod.splits)

text \<open>What the caller of \<open>train\<close> sees is the call's result, with the variables it
  leaves when it returns.\<close>

lemma train_of_train_call:
  "train s vals =
     (case train_call s vals of
        (Inl err, s') \<Rightarrow> Inl err
      | (Inr outs, s') \<Rightarrow> Inr (outs, s'))"
  by (simp add: train_def train_call_def K_function_def)

lemma store_of_simps [simp]:
  "store_of w0 b0 eta Vw = Num w0" "store_of w0 b0 eta Vb = Num b0"
  "store_of w0 b0 eta Vlr = Num eta"
  by (simp_all add: store_of_def)

lemma store_of_update [simp]:
  "(store_of w0 b0 eta)(Vw := Num w1, Vb := Num b1) = store_of w1 b1 eta"
  by (rule ext) (simp add: store_of_def split: variable.splits)

lemma train_closed_form:
  assumes "length as = length ts" "as \<noteq> []"
  shows "train (store_of w0 b0 eta) [np_array as, np_array ts] =
     Inr ([Scalar (Num (spec_loss w0 b0 as ts))],
          store_of (w0 - eta * spec_grad_weight w0 b0 as ts)
                   (b0 - eta * spec_grad_bias w0 b0 as ts) eta)"
proof -
  let ?s = "store_of w0 b0 eta"
  let ?fd = "feed_of (np_array as) (np_array ts)"
  have vals: "?s Vw = Num w0" "?s Vb = Num b0"
    by simp_all
  have fd: "?fd Px = Some (np_array as)" "?fd Ptarget = Some (np_array ts)"
    by simp_all
  note l = eval_loss[OF assms vals fd]
  note gw = eval_grad_w[OF assms vals fd]
  note gb = eval_grad_b[OF assms vals fd, unfolded One_nat_def]
  have news: "eval_list ?s ?fd (map snd updates) =
      Inr [Scalar (Num (w0 - eta * spec_grad_weight w0 b0 as ts)),
           Scalar (Num (b0 - eta * spec_grad_bias w0 b0 as ts))]"
    by (simp add: updates_def w_def b_def lr_def gw gb)
  show ?thesis
    by (simp add: train_unfold l news) (simp add: updates_def w_def b_def)
qed

text \<open>The same formulas as sums over the list of (input, target) pairs.\<close>

lemma spec_loss_pairs:
  "spec_loss w0 b0 as ts =
     (\<Sum>q\<leftarrow>zip as ts. ((w0 * fst q + b0) - snd q)\<^sup>2) / real (length (zip as ts))"
  by (simp add: spec_loss_def mean_list_def case_prod_unfold)

lemma spec_grad_weight_pairs:
  "spec_grad_weight w0 b0 as ts =
     (\<Sum>q\<leftarrow>zip as ts. 2 * ((w0 * fst q + b0) - snd q) * fst q) / real (length (zip as ts))"
  by (simp add: spec_grad_weight_def mean_list_def case_prod_unfold)

lemma spec_grad_bias_pairs:
  "spec_grad_bias w0 b0 as ts =
     (\<Sum>q\<leftarrow>zip as ts. 2 * ((w0 * fst q + b0) - snd q)) / real (length (zip as ts))"
  by (simp add: spec_grad_bias_def mean_list_def case_prod_unfold)

section \<open>One step\<close>

text \<open>
  Claim C1. For equal-length non-empty real batches, any weight, bias and learning
  rate, one call of \<open>train\<close> returns the loss \<open>mean_i ((weight * x_i + bias - y_i)^2)\<close> of
  the parameters before the call, and stores
  \<open>weight - learning_rate * mean_i (2 * (weight * x_i + bias - y_i) * x_i)\<close> and
  \<open>bias - learning_rate * mean_i (2 * (weight * x_i + bias - y_i))\<close>: the gradients that
  \<open>K.gradients\<close> builds from the graph evaluate to the analytic full-batch gradient of
  the mean squared error.
\<close>

theorem step_is_analytic_gradient_update:
  assumes "length as = length ts" and "as \<noteq> []"
  shows "train (store_of w0 b0 eta) [np_array as, np_array ts] =
     Inr ([Scalar (Num (mean_list (map2 (\<lambda>a t. ((w0 * a + b0) - t)\<^sup>2) as ts)))],
          store_of
            (w0 - eta * mean_list (map2 (\<lambda>a t. 2 * ((w0 * a + b0) - t) * a) as ts))
            (b0 - eta * mean_list (map2 (\<lambda>a t. 2 * ((w0 * a + b0) - t)) as ts))
            eta)"
  using train_closed_form[OF assms, of w0 b0 eta]
  by (simp only: spec_loss_def spec_grad_weight_def spec_grad_bias_def)

theorem step_is_analytic_gradient_update_witness:
  "train (store_of 0 0 (1 / 10)) [np_array [1, 2, 3], np_array [1, 2, 5]] =
     Inr ([Scalar (Num 10)], store_of (4 / 3) (8 / 15) (1 / 10))"
  using step_is_analytic_gradient_update[of "[1, 2, 3]" "[1, 2, 5]" 0 0 "1 / 10"]
  by (simp add: mean_list_def)

text \<open>
  Claim C5. With \<open>x_batch = [1.0]\<close>, \<open>y_batch = [1.0]\<close>, weight and bias 0 and learning
  rate 0.1, one call returns the loss 1, the two gradients evaluate to -2, and the call
  stores weight 0.2 and bias 0.2.
\<close>

theorem single_point_step:
  "train (initial_store 0 0) [np_array [1], np_array [1]] =
      Inr ([Scalar (Num 1)], initial_store (1 / 5) (1 / 5))
   \<and> eval (initial_store 0 0) (feed_of (np_array [1]) (np_array [1])) (grads ! 0) =
      Inr (Scalar (Num (- 2)))
   \<and> eval (initial_store 0 0) (feed_of (np_array [1]) (np_array [1])) (grads ! 1) =
      Inr (Scalar (Num (- 2)))"
  by (simp add: train_unfold graph_defs initial_store_def np_array_def mean_tensor_def fl_sum_def)

text \<open>
  Claim C6. On a non-empty batch whose inputs and targets are all 0, for any weight and
  bias, one call returns the loss \<open>bias^2\<close> and the gradient with respect to the weight
  evaluates to 0 (so the weight is stored unchanged).
\<close>

theorem zero_batch_step:
  assumes "0 < n"
  shows "train (store_of w0 b0 eta) [np_array (replicate n 0), np_array (replicate n 0)] =
      Inr ([Scalar (Num (b0\<^sup>2))], store_of w0 (b0 - eta * (2 * b0)) eta)
   \<and> eval (store_of w0 b0 eta) (feed_of (np_array (replicate n 0)) (np_array (replicate n 0)))
        (grads ! 0) = Inr (Scalar (Num 0))"
proof -
  have ne: "replicate n (0::real) \<noteq> []" using assms by simp
  have len: "length (replicate n (0::real)) = length (replicate n (0::real))" by simp
  have l: "spec_loss w0 b0 (replicate n 0) (replicate n 0) = b0\<^sup>2"
    using assms by (simp add: spec_loss_def mean_list_def sum_list_replicate)
  have gw: "spec_grad_weight w0 b0 (replicate n 0) (replicate n 0) = 0"
    using assms by (simp add: spec_grad_weight_def mean_list_def sum_list_replicate)
  have gb: "spec_grad_bias w0 b0 (replicate n 0) (replicate n 0) = 2 * b0"
    using assms by (simp add: spec_grad_bias_def mean_list_def sum_list_replicate)
  show ?thesis
    using train_closed_form[OF len ne, of w0 b0 eta]
      eval_grad_w[OF len ne, of "store_of w0 b0 eta" w0 b0
        "feed_of (np_array (replicate n 0)) (np_array (replicate n 0))"]
    by (simp add: l gw gb)
qed

theorem zero_batch_step_witness:
  "train (store_of 3 2 (1 / 10)) [np_array [0, 0], np_array [0, 0]] =
      Inr ([Scalar (Num 4)], store_of 3 (8 / 5) (1 / 10))
   \<and> eval (store_of 3 2 (1 / 10)) (feed_of (np_array [0, 0]) (np_array [0, 0])) (grads ! 0) =
      Inr (Scalar (Num 0))"
  using zero_batch_step[of 2 3 2 "1 / 10"]
  by (simp add: numeral_2_eq_2)

lemma assign_two:
  assumes "assign s [(Var v1, t1), (Var v2, t2)] = (None, s')"
  shows "\<exists>a c. t1 = Scalar a \<and> t2 = Scalar c \<and> s' = s(v1 := a, v2 := c)"
  using assms by (cases t1; cases t2) auto

text \<open>
  Claim C3. Weight and bias are updated synchronously: whenever a call of \<open>train\<close>
  returns, the stored weight and the stored bias are the values of the two update
  expressions \<open>w - lr * grads[0]\<close> and \<open>b - lr * grads[1]\<close> on the variables as they
  were before the call, the same snapshot the returned loss is computed on. The new
  weight is not visible to the gradient that updates the bias.
\<close>

theorem updates_use_one_snapshot:
  assumes "train s [u, v] = Inr (outs, s')"
  shows "eval s (feed_of u v) (Sub w (Mul lr (grads ! 0))) = Inr (Scalar (s' Vw))
       \<and> eval s (feed_of u v) (Sub b (Mul lr (grads ! 1))) = Inr (Scalar (s' Vb))
       \<and> [eval s (feed_of u v) loss] = map Inr outs
       \<and> s' Vlr = s Vlr"
proof -
  let ?fd = "feed_of u v"
  from assms obtain l where l: "eval s ?fd loss = Inr l"
    by (auto simp: train_unfold split: sum.splits)
  from assms l obtain news where news: "eval_list s ?fd (map snd updates) = Inr news"
    by (auto simp: train_unfold split: sum.splits)
  from assms l news have asg: "assign s (zip (map fst updates) news) = (None, s')"
    and outs: "outs = [l]"
    by (auto simp: train_unfold split: sum.splits option.splits prod.splits)
  from news obtain t1 t2 where
    t1: "eval s ?fd (Sub w (Mul lr (grads ! 0))) = Inr t1" and
    t2: "eval s ?fd (Sub b (Mul lr (grads ! 1))) = Inr t2" and
    n12: "news = [t1, t2]"
    by (auto simp: updates_def split: sum.splits)
  from asg n12 have "assign s [(Var Vw, t1), (Var Vb, t2)] = (None, s')"
    by (simp add: updates_def w_def b_def)
  then obtain a c where "t1 = Scalar a" "t2 = Scalar c" "s' = s(Vw := a, Vb := c)"
    using assign_two by blast
  with t1 t2 l outs show ?thesis by simp
qed

theorem updates_use_one_snapshot_witness:
  "eval (initial_store 0 0) (feed_of (np_array [1]) (np_array [1])) (Sub w (Mul lr (grads ! 0))) =
      Inr (Scalar (Num (1 / 5)))
   \<and> eval (initial_store 0 0) (feed_of (np_array [1]) (np_array [1])) (Sub b (Mul lr (grads ! 1))) =
      Inr (Scalar (Num (1 / 5)))
   \<and> eval (initial_store 0 0) (feed_of (np_array [1]) (np_array [1])) loss = Inr (Scalar (Num 1))"
proof -
  have "train (initial_store 0 0) [np_array [1], np_array [1]] =
      Inr ([Scalar (Num 1)], initial_store (1 / 5) (1 / 5))"
    using train_closed_form[of "[1]" "[1]" 0 0 "1 / 10"]
    by (simp add: initial_store_def spec_loss_def spec_grad_weight_def spec_grad_bias_def
        mean_list_def)
  from updates_use_one_snapshot[OF this] show ?thesis
    by (simp add: initial_store_def)
qed

section \<open>The gradients are the derivatives of the loss\<close>

lemma DERIV_sum_list:
  fixes f :: "real \<Rightarrow> 'a \<Rightarrow> real"
  assumes "\<And>q. q \<in> set ps \<Longrightarrow> ((\<lambda>z. f z q) has_real_derivative f' q) (at z0)"
  shows "((\<lambda>z. \<Sum>q\<leftarrow>ps. f z q) has_real_derivative (\<Sum>q\<leftarrow>ps. f' q)) (at z0)"
  using assms
proof (induction ps)
  case Nil
  show ?case by simp
next
  case (Cons q ps)
  then show ?case by (auto intro!: derivative_intros)
qed

lemma spec_loss_deriv_weight:
  "((\<lambda>z. spec_loss z b0 as ts) has_real_derivative spec_grad_weight w0 b0 as ts) (at w0)"
  unfolding spec_loss_pairs spec_grad_weight_pairs
  by (intro DERIV_cdivide DERIV_sum_list) (auto intro!: derivative_eq_intros)

lemma spec_loss_deriv_bias:
  "((\<lambda>z. spec_loss w0 z as ts) has_real_derivative spec_grad_bias w0 b0 as ts) (at b0)"
  unfolding spec_loss_pairs spec_grad_bias_pairs
  by (intro DERIV_cdivide DERIV_sum_list) (auto intro!: derivative_eq_intros)

text \<open>
  On equal-length non-empty real batches the loss node evaluates to a function \<open>L\<close> of
  the weight and the bias, and the two gradient nodes that \<open>K.gradients\<close> builds
  evaluate to the partial derivatives of \<open>L\<close> at the current weight and bias.
\<close>

theorem gradients_are_derivatives_of_loss:
  assumes "length as = length ts" and "as \<noteq> []"
  shows "\<exists>L gw gb.
      (\<forall>z c. eval (store_of z c eta) (feed_of (np_array as) (np_array ts)) loss
               = Inr (Scalar (Num (L z c))))
    \<and> eval (store_of w0 b0 eta) (feed_of (np_array as) (np_array ts)) (grads ! 0)
        = Inr (Scalar (Num gw))
    \<and> eval (store_of w0 b0 eta) (feed_of (np_array as) (np_array ts)) (grads ! 1)
        = Inr (Scalar (Num gb))
    \<and> ((\<lambda>z. L z b0) has_real_derivative gw) (at w0)
    \<and> ((\<lambda>c. L w0 c) has_real_derivative gb) (at b0)"
proof (intro exI conjI allI)
  let ?fd = "feed_of (np_array as) (np_array ts)"
  show "eval (store_of z c eta) ?fd loss = Inr (Scalar (Num (spec_loss z c as ts)))" for z c
    by (rule eval_loss[OF assms]) simp_all
  show "eval (store_of w0 b0 eta) ?fd (grads ! 0) = Inr (Scalar (Num (spec_grad_weight w0 b0 as ts)))"
    by (rule eval_grad_w[OF assms]) simp_all
  show "eval (store_of w0 b0 eta) ?fd (grads ! 1) = Inr (Scalar (Num (spec_grad_bias w0 b0 as ts)))"
    by (rule eval_grad_b[OF assms]) simp_all
  show "((\<lambda>z. spec_loss z b0 as ts) has_real_derivative spec_grad_weight w0 b0 as ts) (at w0)"
    by (rule spec_loss_deriv_weight)
  show "((\<lambda>c. spec_loss w0 c as ts) has_real_derivative spec_grad_bias w0 b0 as ts) (at b0)"
    by (rule spec_loss_deriv_bias)
qed

theorem gradients_are_derivatives_of_loss_witness:
  "\<exists>L gw gb.
      (\<forall>z c. eval (store_of z c (1 / 10)) (feed_of (np_array [1, 2, 3]) (np_array [1, 2, 5])) loss
               = Inr (Scalar (Num (L z c))))
    \<and> eval (store_of 0 0 (1 / 10)) (feed_of (np_array [1, 2, 3]) (np_array [1, 2, 5])) (grads ! 0)
        = Inr (Scalar (Num gw))
    \<and> eval (store_of 0 0 (1 / 10)) (feed_of (np_array [1, 2, 3]) (np_array [1, 2, 5])) (grads ! 1)
        = Inr (Scalar (Num gb))
    \<and> ((\<lambda>z. L z 0) has_real_derivative gw) (at 0)
    \<and> ((\<lambda>c. L 0 c) has_real_derivative gb) (at 0)"
  by (rule gradients_are_derivatives_of_loss) simp_all

section \<open>The training loop\<close>

lemma training_loop_spec:
  "map_sum id (\<lambda>r'. (loss_history r', vars r')) (training_loop es u v r) =
   map_sum id (\<lambda>(ls, s'). (loss_history r @ ls, s')) (spec_train (length es) (vars r) u v)"
proof (induction es arbitrary: r)
  case Nil
  show ?case by simp
next
  case (Cons e es)
  show ?case
  proof (cases "train (vars r) [u, v]")
    case (Inl err)
    then show ?thesis by simp
  next
    case (Inr res)
    obtain outs s' where res: "res = (outs, s')" by (cases res)
    show ?thesis
    proof (cases outs)
      case Nil
      with Inr res show ?thesis by simp
    next
      case (Cons l rest)
      with Inr res Cons.IH show ?thesis
        by (cases "spec_train (length es) s' u v") auto
    qed
  qed
qed

lemma training_loop_length:
  "training_loop es u v r = Inr r' \<Longrightarrow> length (loss_history r') = length (loss_history r) + length es"
proof (induction es arbitrary: r)
  case Nil
  then show ?case by simp
next
  case (Cons e es)
  then show ?case
    by (auto split: sum.splits prod.splits list.splits)
qed

lemma training_spec_train:
  "map_sum id (\<lambda>r. (loss_history r, vars r)) (training epochs s u v) = spec_train epochs s u v"
  unfolding training_def
  by (simp add: training_loop_spec) (cases "spec_train epochs s u v"; auto)

text \<open>
  Claim C4. For every number of epochs, the loop calls \<open>train\<close> exactly that many times
  in sequence (200 in the notebook), each call starting from the variables the previous
  one stored; the history holds the loss of the i-th call at position i, so its length
  is the number of epochs. The history and the final variables are those of the
  print-free iteration \<open>spec_train\<close>: printing progress changes no number.
\<close>

theorem training_is_iterated_step:
  "map_sum id (\<lambda>r. (loss_history r, vars r)) (training epochs s u v) = spec_train epochs s u v
   \<and> (\<forall>r. training epochs s u v = Inr r \<longrightarrow> length (loss_history r) = epochs)"
proof
  show "map_sum id (\<lambda>r. (loss_history r, vars r)) (training epochs s u v) =
      spec_train epochs s u v"
    by (rule training_spec_train)
  show "\<forall>r. training epochs s u v = Inr r \<longrightarrow> length (loss_history r) = epochs"
    unfolding training_def by (auto dest: training_loop_length)
qed

theorem training_is_iterated_step_witness:
  "map_sum id (\<lambda>r. (loss_history r, vars r))
      (training 2 (initial_store 0 0) (np_array [1]) (np_array [1])) =
     Inr ([Scalar (Num 1), Scalar (Num (9 / 25))], initial_store (8 / 25) (8 / 25))
   \<and> map_sum id (\<lambda>r. length (loss_history r))
      (training 2 (initial_store 0 0) (np_array [1]) (np_array [1])) = Inr 2"
proof -
  have 1: "train (initial_store 0 0) [np_array [1], np_array [1]] =
      Inr ([Scalar (Num 1)], initial_store (1 / 5) (1 / 5))"
    using train_closed_form[of "[1]" "[1]" 0 0 "1 / 10"]
    by (simp add: initial_store_def spec_loss_def spec_grad_weight_def spec_grad_bias_def
        mean_list_def)
  have 2: "train (initial_store (1 / 5) (1 / 5)) [np_array [1], np_array [1]] =
      Inr ([Scalar (Num (9 / 25))], initial_store (8 / 25) (8 / 25))"
    using train_closed_form[of "[1]" "[1]" "1 / 5" "1 / 5" "1 / 10"]
    by (simp add: initial_store_def spec_loss_def spec_grad_weight_def spec_grad_bias_def
        mean_list_def power2_eq_square)
  have "spec_train 2 (initial_store 0 0) (np_array [1]) (np_array [1]) =
     Inr ([Scalar (Num 1), Scalar (Num (9 / 25))], initial_store (8 / 25) (8 / 25))"
    by (simp add: numeral_2_eq_2 1 2)
  with training_is_iterated_step[of 2 "initial_store 0 0" "np_array [1]" "np_array [1]"]
  show ?thesis
    by (cases "training 2 (initial_store 0 0) (np_array [1]) (np_array [1])") auto
qed

lemma spec_train_numeric:
  assumes "length as = length ts" "as \<noteq> []"
  shows "spec_train n (store_of w0 b0 eta) (np_array as) (np_array ts) =
     Inr (map (\<lambda>c. Scalar (Num c)) (spec_losses n (w0, b0) eta as ts),
          store_of (fst (spec_params n (w0, b0) eta as ts))
                   (snd (spec_params n (w0, b0) eta as ts)) eta)"
proof (induction n arbitrary: w0 b0)
  case 0
  show ?case by simp
next
  case (Suc n)
  show ?case
    by (simp add: train_closed_form[OF assms] Suc.IH spec_step_def)
qed

lemma training_numeric:
  assumes "length as = length ts" "as \<noteq> []"
  shows "\<exists>r. training n (store_of w0 b0 eta) (np_array as) (np_array ts) = Inr r
     \<and> loss_history r = map (\<lambda>c. Scalar (Num c)) (spec_losses n (w0, b0) eta as ts)
     \<and> vars r = store_of (fst (spec_params n (w0, b0) eta as ts))
                   (snd (spec_params n (w0, b0) eta as ts)) eta"
  using training_spec_train[of n "store_of w0 b0 eta" "np_array as" "np_array ts"]
    spec_train_numeric[OF assms, of n w0 b0 eta]
  by (cases "training n (store_of w0 b0 eta) (np_array as) (np_array ts)") auto

section \<open>Batches of mismatched or zero length\<close>

lemma eval_residual_mismatch:
  assumes "length as \<noteq> length ts" "length as \<noteq> 1" "length ts \<noteq> 1"
  shows "eval s (feed_of (Vector as) (Vector ts)) (Sub y target) = Inl IncompatibleShapes"
  using assms by (simp add: graph_defs)

lemma train_mismatch:
  assumes "length as \<noteq> length ts" "length as \<noteq> 1" "length ts \<noteq> 1"
  shows "train s [Vector as, Vector ts] = Inl IncompatibleShapes"
  using eval_residual_mismatch[OF assms, of s]
  by (simp add: train_unfold loss_def)

lemma train_empty:
  "train (store_of w0 b0 eta) [np_array [], np_array []] = Inr ([Scalar NaN], store_of w0 b0 eta)"
  by (simp add: train_unfold graph_defs np_array_def mean_tensor_def fl_sum_def)

lemma spec_train_empty:
  "spec_train n (store_of w0 b0 eta) (np_array []) (np_array []) =
     Inr (replicate n (Scalar NaN), store_of w0 b0 eta)"
  by (induction n) (simp_all add: train_empty)

text \<open>A batch of length 1 against a longer one is broadcast, not rejected.\<close>

lemma train_broadcasts_length_one:
  "train (initial_store 0 0) [np_array [1], np_array [1, 2, 3]] =
     Inr ([Scalar (Num (14 / 3))], initial_store (2 / 5) (2 / 5))"
  by (simp add: train_unfold graph_defs initial_store_def np_array_def mean_tensor_def fl_sum_def)

lemma train_call_mismatch:
  assumes "length as \<noteq> length ts" "length as \<noteq> 1" "length ts \<noteq> 1"
  shows "train_call s [Vector as, Vector ts] = (Inl IncompatibleShapes, s)"
  using eval_residual_mismatch[OF assms, of s]
  by (simp add: train_call_unfold loss_def)

lemma training_mismatch:
  assumes "length as \<noteq> length ts" "length as \<noteq> 1" "length ts \<noteq> 1"
  shows "training (Suc n) s (Vector as) (Vector ts) = Inl IncompatibleShapes"
  unfolding training_def
  by (simp add: upt_conv_Cons train_mismatch[OF assms] del: upt_Suc)

text \<open>
  Claim C2 says that a call with batches of mismatched or zero length fails at once
  with an InvalidInput error and applies no update. The notebook has no guard of its
  own. On two empty batches nothing is raised: the call returns, and the loss is \<open>NaN\<close>.
\<close>

theorem empty_batch_raises_nothing:
  "map_sum id fst (train (initial_store 0 0) [np_array [], np_array []]) = Inr [Scalar NaN]"
  by (simp add: initial_store_def train_empty)

text \<open>
  Claim C2, as amended. When the two batches differ in length and neither has length 1
  (a batch of length 1 is broadcast against the other), the element-wise subtraction is
  rejected for its shapes. The call fails with that error before any assignment: the
  variables after the failed call are those before it, so no parameter update is
  applied. The training loop stops with the same error at its first epoch. On two
  empty batches the call raises nothing and returns \<open>NaN\<close> as the loss.
\<close>

theorem train_input_handling:
  "(length as \<noteq> length ts \<and> length as \<noteq> 1 \<and> length ts \<noteq> 1 \<longrightarrow>
      train_call s [np_array as, np_array ts] = (Inl IncompatibleShapes, s)
      \<and> train s [np_array as, np_array ts] = Inl IncompatibleShapes
      \<and> training (Suc n) s (np_array as) (np_array ts) = Inl IncompatibleShapes)
   \<and> map_sum id fst (train (store_of w0 b0 eta) [np_array [], np_array []]) = Inr [Scalar NaN]"
  using train_empty[of w0 b0 eta]
  by (simp add: np_array_def train_mismatch training_mismatch train_call_mismatch)

theorem train_input_handling_witness:
  "train_call (initial_store 0 0) [np_array [1, 2], np_array [1, 2, 3]] =
       (Inl IncompatibleShapes, initial_store 0 0)
   \<and> train (initial_store 0 0) [np_array [1, 2], np_array [1, 2, 3]] = Inl IncompatibleShapes
   \<and> training (Suc 199) (initial_store 0 0) (np_array [1, 2]) (np_array [1, 2, 3]) =
       Inl IncompatibleShapes
   \<and> map_sum id fst (train (store_of 0 0 (1 / 10)) [np_array [], np_array []]) = Inr [Scalar NaN]"
  using train_input_handling[of "[1, 2]" "[1, 2, 3]" "initial_store 0 0" 199 0 0 "1 / 10"]
  by simp

section \<open>Facts about the losses of the specification\<close>

lemma spec_loss_nonneg: "0 \<le> spec_loss w0 b0 as ts"
  unfolding spec_loss_pairs by (intro divide_nonneg_nonneg sum_list_nonneg) auto

lemma spec_losses_length [simp]: "length (spec_losses n p eta as ts) = n"
  by (induction n arbitrary: p) simp_all

lemma spec_losses_nonneg:
  "\<forall>c\<in>set (spec_losses n p eta as ts). 0 \<le> c"
  by (induction n arbitrary: p) (simp_all add: spec_step_def spec_loss_nonneg)

section \<open>Descent on the reference data\<close>

lemma sum_sq_shift:
  fixes ps :: "(real \<times> real) list" and r :: "real \<times> real \<Rightarrow> real"
  shows "(\<Sum>q\<leftarrow>ps. (r q - c * (g * fst q + h))\<^sup>2) =
         (\<Sum>q\<leftarrow>ps. (r q)\<^sup>2)
         - 2 * c * (g * (\<Sum>q\<leftarrow>ps. r q * fst q) + h * (\<Sum>q\<leftarrow>ps. r q))
         + c\<^sup>2 * (\<Sum>q\<leftarrow>ps. (g * fst q + h)\<^sup>2)"
  by (induction ps) (simp_all add: power2_eq_square algebra_simps)

lemma affine_sq_bound:
  fixes a g h :: real
  assumes "a\<^sup>2 \<le> 1"
  shows "(g * a + h)\<^sup>2 \<le> 2 * (g\<^sup>2 + h\<^sup>2)"
proof -
  have "(g * a + h)\<^sup>2 \<le> 2 * (g * a)\<^sup>2 + 2 * h\<^sup>2"
    using sum_squares_bound[of "g * a" h] by (simp add: power2_sum)
  also have "(g * a)\<^sup>2 = g\<^sup>2 * a\<^sup>2"
    by (simp add: power_mult_distrib)
  also have "2 * (g\<^sup>2 * a\<^sup>2) + 2 * h\<^sup>2 \<le> 2 * (g\<^sup>2 * 1) + 2 * h\<^sup>2"
    using assms by (intro add_right_mono mult_left_mono) simp_all
  finally show ?thesis by simp
qed

lemma sum_affine_sq_bound:
  fixes ps :: "(real \<times> real) list"
  assumes "\<forall>q\<in>set ps. (fst q)\<^sup>2 \<le> 1"
  shows "(\<Sum>q\<leftarrow>ps. (g * fst q + h)\<^sup>2) \<le> real (length ps) * (2 * (g\<^sup>2 + h\<^sup>2))"
proof -
  have "(\<Sum>q\<leftarrow>ps. (g * fst q + h)\<^sup>2) \<le> (\<Sum>q\<leftarrow>ps. 2 * (g\<^sup>2 + h\<^sup>2))"
    using assms by (intro sum_list_mono affine_sq_bound) auto
  then show ?thesis by (simp add: sum_list_triv)
qed

text \<open>One gradient step on the sum of squared residuals.\<close>

lemma descent_pairs:
  fixes ps :: "(real \<times> real) list"
  assumes ne: "ps \<noteq> []" and unit: "\<forall>q\<in>set ps. (fst q)\<^sup>2 \<le> 1"
    and eta: "0 \<le> eta" "eta \<le> 1 / 2"
    and gw: "gw = (\<Sum>q\<leftarrow>ps. 2 * ((w0 * fst q + b0) - snd q) * fst q) / real (length ps)"
    and gb: "gb = (\<Sum>q\<leftarrow>ps. 2 * ((w0 * fst q + b0) - snd q)) / real (length ps)"
  shows "(\<Sum>q\<leftarrow>ps. (((w0 - eta * gw) * fst q + (b0 - eta * gb)) - snd q)\<^sup>2)
       \<le> (\<Sum>q\<leftarrow>ps. ((w0 * fst q + b0) - snd q)\<^sup>2)"
proof -
  define r where "r = (\<lambda>q::real \<times> real. (w0 * fst q + b0) - snd q)"
  define n where "n = real (length ps)"
  define G where "G = gw\<^sup>2 + gb\<^sup>2"
  have n: "0 < n" using ne by (simp add: n_def)
  have G: "0 \<le> G" by (simp add: G_def)
  have "(\<Sum>q\<leftarrow>ps. 2 * r q * fst q) = 2 * (\<Sum>q\<leftarrow>ps. r q * fst q)"
    by (simp add: sum_list_const_mult mult.assoc)
  then have Sra: "(\<Sum>q\<leftarrow>ps. r q * fst q) = n * gw / 2"
    using n unfolding gw r_def n_def by simp
  have "(\<Sum>q\<leftarrow>ps. 2 * r q) = 2 * (\<Sum>q\<leftarrow>ps. r q)"
    by (simp add: sum_list_const_mult)
  then have Sr: "(\<Sum>q\<leftarrow>ps. r q) = n * gb / 2"
    using n unfolding gb r_def n_def by simp
  have "(\<Sum>q\<leftarrow>ps. (((w0 - eta * gw) * fst q + (b0 - eta * gb)) - snd q)\<^sup>2)
      = (\<Sum>q\<leftarrow>ps. (r q - eta * (gw * fst q + gb))\<^sup>2)"
    by (simp add: r_def algebra_simps)
  also have "\<dots> = (\<Sum>q\<leftarrow>ps. (r q)\<^sup>2)
         - 2 * eta * (gw * (n * gw / 2) + gb * (n * gb / 2))
         + eta\<^sup>2 * (\<Sum>q\<leftarrow>ps. (gw * fst q + gb)\<^sup>2)"
    by (simp only: sum_sq_shift Sra Sr)
  also have "\<dots> = (\<Sum>q\<leftarrow>ps. (r q)\<^sup>2) - eta * n * G
         + eta\<^sup>2 * (\<Sum>q\<leftarrow>ps. (gw * fst q + gb)\<^sup>2)"
    by (simp add: G_def power2_eq_square algebra_simps)
  also have "\<dots> \<le> (\<Sum>q\<leftarrow>ps. (r q)\<^sup>2) - eta * n * G + eta\<^sup>2 * (n * (2 * G))"
    using sum_affine_sq_bound[OF unit, of gw gb]
    by (intro add_left_mono mult_left_mono) (simp_all add: G_def n_def)
  also have "\<dots> = (\<Sum>q\<leftarrow>ps. (r q)\<^sup>2) - (eta * (1 - 2 * eta)) * (n * G)"
    by (simp add: power2_eq_square algebra_simps)
  also have "\<dots> \<le> (\<Sum>q\<leftarrow>ps. (r q)\<^sup>2)"
  proof -
    have "0 \<le> eta * (1 - 2 * eta)" using eta by (intro mult_nonneg_nonneg) simp_all
    moreover have "0 \<le> n * G" using n G by simp
    ultimately have "0 \<le> (eta * (1 - 2 * eta)) * (n * G)" by (rule mult_nonneg_nonneg)
    then show ?thesis by simp
  qed
  finally show ?thesis by (simp add: r_def)
qed

lemma spec_loss_descent:
  assumes len: "length as = length ts" and ne: "as \<noteq> []"
    and unit: "\<forall>a\<in>set as. a\<^sup>2 \<le> 1" and eta: "0 \<le> eta" "eta \<le> 1 / 2"
  shows "spec_loss (fst (fst (spec_step p eta as ts))) (snd (fst (spec_step p eta as ts))) as ts
       \<le> spec_loss (fst p) (snd p) as ts"
proof -
  let ?ps = "zip as ts"
  have ne': "?ps \<noteq> []" using len ne by (cases as; cases ts) auto
  have unit': "\<forall>q\<in>set ?ps. (fst q)\<^sup>2 \<le> 1"
    using unit by (auto dest: set_zip_leftD)
  show ?thesis
    unfolding spec_step_def fst_conv snd_conv spec_loss_pairs
    by (intro divide_right_mono descent_pairs[OF ne' unit' eta]
          spec_grad_weight_pairs spec_grad_bias_pairs) simp
qed

lemma spec_losses_nonincreasing:
  assumes len: "length as = length ts" and ne: "as \<noteq> []"
    and unit: "\<forall>a\<in>set as. a\<^sup>2 \<le> 1" and eta: "0 \<le> eta" "eta \<le> 1 / 2"
  shows "Suc i < n \<Longrightarrow> spec_losses n p eta as ts ! Suc i \<le> spec_losses n p eta as ts ! i"
proof (induction n arbitrary: p i)
  case 0
  then show ?case by simp
next
  case (Suc n)
  show ?case
  proof (cases i)
    case 0
    with Suc.prems obtain m where m: "n = Suc m" by (cases n) auto
    show ?thesis
      using spec_loss_descent[OF len ne unit eta, of p]
      by (simp add: 0 m) (simp add: spec_step_def)
  next
    case (Suc j)
    with Suc.prems have "Suc j < n" by simp
    from Suc.IH[OF this] show ?thesis by (simp add: Suc)
  qed
qed

lemma unit_interval_sq:
  fixes a :: real
  assumes "0 \<le> a" "a < 1"
  shows "a\<^sup>2 \<le> 1"
  using assms by (simp add: power_le_one)



text \<open>
  The same descent for any batch and learning rate within the bound used above: on
  equal-length non-empty real batches whose inputs lie in \<open>[-1, 1]\<close>, with any targets
  and any learning rate in \<open>[0, 1 / 2]\<close>, a run of any length returns and its recorded
  loss never increases from one epoch to the next.
\<close>

theorem loss_nonincreasing_for_small_rates:
  assumes "length as = length ts" and "as \<noteq> []" and "\<forall>a\<in>set as. a\<^sup>2 \<le> 1"
    and "0 \<le> eta" and "eta \<le> 1 / 2"
  shows "\<exists>r cs. training epochs (store_of w0 b0 eta) (np_array as) (np_array ts) = Inr r
           \<and> loss_history r = map (\<lambda>c. Scalar (Num c)) cs
           \<and> length cs = epochs
           \<and> (\<forall>i. Suc i < epochs \<longrightarrow> cs ! Suc i \<le> cs ! i)"
proof -
  let ?cs = "spec_losses epochs (w0, b0) eta as ts"
  from training_numeric[OF assms(1,2), of epochs w0 b0 eta]
  obtain r where r: "training epochs (store_of w0 b0 eta) (np_array as) (np_array ts) = Inr r"
      "loss_history r = map (\<lambda>c. Scalar (Num c)) ?cs"
    by blast
  have "\<forall>i. Suc i < epochs \<longrightarrow> ?cs ! Suc i \<le> ?cs ! i"
    using spec_losses_nonincreasing[OF assms, of _ epochs "(w0, b0)"] by simp
  with r show ?thesis by (intro exI[of _ r] exI[of _ ?cs]) simp
qed

theorem loss_nonincreasing_for_small_rates_witness:
  "\<exists>r cs. training 3 (store_of 0 0 (1 / 2)) (np_array [1, - 1]) (np_array [1, 2]) = Inr r
           \<and> loss_history r = map (\<lambda>c. Scalar (Num c)) cs
           \<and> length cs = 3
           \<and> (\<forall>i. Suc i < 3 \<longrightarrow> cs ! Suc i \<le> cs ! i)"
  by (rule loss_nonincreasing_for_small_rates) simp_all

section \<open>Distance from the generating parameters\<close>

lemma slow_xs_length: "length slow_xs = 1000"
  by (simp add: slow_xs_def)

lemma slow_xs_range: "list_all (\<lambda>a. 0 \<le> a \<and> a < 1) slow_xs"
  by (simp add: slow_xs_def list_all_iff)

lemma slow_step:
  "fst (spec_step (24 / 25 - 9 / 10 * c, 6 / 25 + 12 / 25 * c) (1 / 10) slow_xs (reference_target slow_xs))
     = (24 / 25 - 9 / 10 * (c * (79 / 80)), 6 / 25 + 12 / 25 * (c * (79 / 80)))"
  by (simp add: spec_step_def spec_grad_weight_def spec_grad_bias_def mean_list_def
      reference_target_def slow_xs_def sum_list_replicate algebra_simps)

lemma slow_params:
  "spec_params n (24 / 25 - 9 / 10 * c, 6 / 25 + 12 / 25 * c) (1 / 10) slow_xs (reference_target slow_xs)
     = (24 / 25 - 9 / 10 * (c * (79 / 80) ^ n), 6 / 25 + 12 / 25 * (c * (79 / 80) ^ n))"
proof (induction n arbitrary: c)
  case 0
  show ?case by simp
next
  case (Suc n)
  show ?case
    by (simp only: spec_params.simps slow_step Suc.IH power_Suc mult.assoc)
qed

lemma slow_power: "(1 / 18 :: real) < (79 / 80) ^ 200"
  by (simp add: power_divide)

text \<open>
  Claim C9 says that after 200 epochs on the reference data the weight is within 0.05
  of 0.96 and the bias within 0.05 of 0.24. On the sample \<open>slow_xs\<close>, from the draws
  \<open>w = 0.06\<close> and \<open>b = 0.72\<close>, the weight after 200 epochs is
  \<open>0.96 - 0.9 * (79 / 80)^200\<close>, about 0.887, more than 0.05 away from 0.96.
\<close>

theorem reference_run_misses_tolerance:
  "length slow_xs = 1000
   \<and> list_all (\<lambda>a. 0 \<le> a \<and> a < 1) slow_xs
   \<and> map_sum id (\<lambda>r. vars r Vw) (notebook_run (3 / 50) (18 / 25) slow_xs) =
       Inr (Num (24 / 25 - 9 / 10 * (79 / 80) ^ 200))
   \<and> \<not> \<bar>(24 / 25 - 9 / 10 * (79 / 80) ^ 200) - 96 / 100\<bar> < (5 / 100 :: real)"
proof -
  let ?ts = "reference_target slow_xs"
  have len: "length slow_xs = length ?ts" by (simp add: reference_target_def)
  have ne: "slow_xs \<noteq> []" using slow_xs_length by auto
  have init: "(3 / 50 :: real, 18 / 25 :: real) = (24 / 25 - 9 / 10 * 1, 6 / 25 + 12 / 25 * 1)"
    by simp
  have params: "spec_params 200 (3 / 50, 18 / 25) (1 / 10) slow_xs ?ts =
      (24 / 25 - 9 / 10 * (79 / 80) ^ 200, 6 / 25 + 12 / 25 * (79 / 80) ^ 200)"
    unfolding init slow_params by simp
  from training_numeric[OF len ne, of 200 "3 / 50" "18 / 25" "1 / 10"]
  have run: "map_sum id (\<lambda>r. vars r Vw) (notebook_run (3 / 50) (18 / 25) slow_xs) =
       Inr (Num (24 / 25 - 9 / 10 * (79 / 80) ^ 200))"
    unfolding params by (auto simp: notebook_run_def initial_store_def)
  have "(1 / 20 :: real) < 9 / 10 * (79 / 80) ^ 200"
    using slow_power by simp
  then have far: "\<not> \<bar>(24 / 25 - 9 / 10 * (79 / 80) ^ 200) - 96 / 100\<bar> < (5 / 100 :: real)"
    by simp
  show ?thesis
    using slow_xs_length slow_xs_range run far by blast
qed

lemma sum_list_sq_le:
  fixes f :: "'a \<Rightarrow> real"
  shows "(\<Sum>q\<leftarrow>ps. f q)\<^sup>2 \<le> real (length ps) * (\<Sum>q\<leftarrow>ps. (f q)\<^sup>2)"
proof (induction ps)
  case Nil
  show ?case by simp
next
  case (Cons q ps)
  define s where "s = (\<Sum>q\<leftarrow>ps. f q)"
  define t where "t = (\<Sum>q\<leftarrow>ps. (f q)\<^sup>2)"
  define n where "n = real (length ps)"
  define a where "a = f q"
  have IH: "s\<^sup>2 \<le> n * t" using Cons.IH by (simp add: s_def t_def n_def)
  have n: "0 \<le> n" by (simp add: n_def)
  have t: "0 \<le> t" unfolding t_def by (intro sum_list_nonneg) auto
  have cross: "2 * a * s \<le> n * a\<^sup>2 + t"
  proof (cases "n = 0")
    case True
    then have "s = 0" using IH by simp
    with True t show ?thesis by simp
  next
    case False
    with n have npos: "0 < n" by simp
    have "0 \<le> (n * a - s)\<^sup>2" by simp
    then have "2 * n * a * s \<le> n\<^sup>2 * a\<^sup>2 + s\<^sup>2"
      by (simp add: power2_diff power_mult_distrib algebra_simps)
    also have "\<dots> \<le> n\<^sup>2 * a\<^sup>2 + n * t" using IH by simp
    finally have "n * (2 * a * s) \<le> n * (n * a\<^sup>2 + t)"
      by (simp add: power2_eq_square algebra_simps)
    then show ?thesis using npos by simp
  qed
  have "(a + s)\<^sup>2 = a\<^sup>2 + 2 * a * s + s\<^sup>2"
    by (simp add: power2_sum)
  also have "\<dots> \<le> a\<^sup>2 + (n * a\<^sup>2 + t) + n * t"
    using cross IH by simp
  also have "\<dots> = (n + 1) * (a\<^sup>2 + t)"
    by (simp add: algebra_simps)
  finally show ?case
    by (simp add: s_def t_def n_def a_def add.commute)
qed

lemma distance_loss_pairs:
  fixes ps :: "(real \<times> real) list"
  assumes ne: "ps \<noteq> []" and unit: "\<forall>q\<in>set ps. (fst q)\<^sup>2 \<le> 1"
    and lin: "\<forall>q\<in>set ps. snd q = c1 * fst q + c0"
    and gw: "gw = (\<Sum>q\<leftarrow>ps. 2 * ((w0 * fst q + b0) - snd q) * fst q) / real (length ps)"
    and gb: "gb = (\<Sum>q\<leftarrow>ps. 2 * ((w0 * fst q + b0) - snd q)) / real (length ps)"
  shows "((w0 - eta * gw) - c1)\<^sup>2 + ((b0 - eta * gb) - c0)\<^sup>2
         + 4 * eta * (1 - 2 * eta)
           * ((\<Sum>q\<leftarrow>ps. ((w0 * fst q + b0) - snd q)\<^sup>2) / real (length ps))
       \<le> (w0 - c1)\<^sup>2 + (b0 - c0)\<^sup>2"
proof -
  define r where "r = (\<lambda>q::real \<times> real. (w0 * fst q + b0) - snd q)"
  define n where "n = real (length ps)"
  define dw where "dw = w0 - c1"
  define db where "db = b0 - c0"
  define S2 where "S2 = (\<Sum>q\<leftarrow>ps. (r q)\<^sup>2)"
  define Sra where "Sra = (\<Sum>q\<leftarrow>ps. r q * fst q)"
  define Sr where "Sr = (\<Sum>q\<leftarrow>ps. r q)"
  have n: "0 < n" using ne by (simp add: n_def)
  have S2: "0 \<le> S2" unfolding S2_def by (intro sum_list_nonneg) auto
  have "(\<Sum>q\<leftarrow>ps. 2 * r q * fst q) = 2 * Sra"
    by (simp add: Sra_def sum_list_const_mult mult.assoc)
  then have gw': "gw = 2 * Sra / n" unfolding gw r_def n_def by simp
  have "(\<Sum>q\<leftarrow>ps. 2 * r q) = 2 * Sr"
    by (simp add: Sr_def sum_list_const_mult)
  then have gb': "gb = 2 * Sr / n" unfolding gb r_def n_def by simp
  have rq: "r q = dw * fst q + db" if "q \<in> set ps" for q
    using lin that by (simp add: r_def dw_def db_def algebra_simps)
  have meq: "map (\<lambda>q. (r q)\<^sup>2) ps = map (\<lambda>q. dw * (r q * fst q) + db * r q) ps"
    by (rule map_cong[OF refl]) (simp add: rq power2_eq_square algebra_simps)
  have "S2 = (\<Sum>q\<leftarrow>ps. dw * (r q * fst q) + db * r q)"
    unfolding S2_def meq by (rule refl)
  also have "\<dots> = dw * Sra + db * Sr"
    by (simp add: Sra_def Sr_def sum_list_addf sum_list_const_mult)
  finally have inner: "dw * Sra + db * Sr = S2" by simp
  have "Sra\<^sup>2 \<le> n * (\<Sum>q\<leftarrow>ps. (r q * fst q)\<^sup>2)"
    unfolding Sra_def n_def by (rule sum_list_sq_le)
  also have "(\<Sum>q\<leftarrow>ps. (r q * fst q)\<^sup>2) \<le> S2"
    unfolding S2_def
  proof (rule sum_list_mono)
    fix q assume "q \<in> set ps"
    with unit have "(fst q)\<^sup>2 \<le> 1" by blast
    then have "(r q)\<^sup>2 * (fst q)\<^sup>2 \<le> (r q)\<^sup>2 * 1"
      by (intro mult_left_mono) simp_all
    then show "(r q * fst q)\<^sup>2 \<le> (r q)\<^sup>2"
      by (simp add: power_mult_distrib)
  qed
  finally have Sra_le: "Sra\<^sup>2 \<le> n * S2" using n by simp
  have Sr_le: "Sr\<^sup>2 \<le> n * S2"
    unfolding Sr_def S2_def n_def by (rule sum_list_sq_le)
  have expand: "((w0 - eta * gw) - c1)\<^sup>2 + ((b0 - eta * gb) - c0)\<^sup>2
      = dw\<^sup>2 + db\<^sup>2 - 2 * eta * (dw * gw + db * gb) + eta\<^sup>2 * (gw\<^sup>2 + gb\<^sup>2)"
    by (simp add: dw_def db_def power2_eq_square algebra_simps)
  have cross: "dw * gw + db * gb = 2 * (S2 / n)"
    using inner by (simp add: gw' gb' algebra_simps add_divide_distrib[symmetric])
  have "gw\<^sup>2 + gb\<^sup>2 = 4 * ((Sra\<^sup>2 + Sr\<^sup>2) / n\<^sup>2)"
    by (simp add: gw' gb' power_divide power_mult_distrib add_divide_distrib)
  also have "(Sra\<^sup>2 + Sr\<^sup>2) / n\<^sup>2 \<le> (n * S2 + n * S2) / n\<^sup>2"
    using Sra_le Sr_le by (intro divide_right_mono add_mono) simp_all
  also have "(n * S2 + n * S2) / n\<^sup>2 = 2 * (S2 / n)"
    using n by (simp add: power2_eq_square)
  finally have G: "gw\<^sup>2 + gb\<^sup>2 \<le> 8 * (S2 / n)" by simp
  have L: "0 \<le> S2 / n" using S2 n by simp
  have "eta\<^sup>2 * (gw\<^sup>2 + gb\<^sup>2) \<le> eta\<^sup>2 * (8 * (S2 / n))"
    using G by (intro mult_left_mono) simp_all
  then have "((w0 - eta * gw) - c1)\<^sup>2 + ((b0 - eta * gb) - c0)\<^sup>2
      \<le> dw\<^sup>2 + db\<^sup>2 - 2 * eta * (2 * (S2 / n)) + eta\<^sup>2 * (8 * (S2 / n))"
    unfolding expand cross by simp
  also have "\<dots> = dw\<^sup>2 + db\<^sup>2 - (4 * eta * (1 - 2 * eta)) * (S2 / n)"
    by (simp add: power2_eq_square algebra_simps)
  finally show ?thesis by (simp add: dw_def db_def S2_def r_def n_def)
qed


lemma spec_step_progress:
  assumes ne: "as \<noteq> []" and unit: "\<forall>a\<in>set as. a\<^sup>2 \<le> 1"
  shows "sq_distance (fst (spec_step p eta as (reference_target as)))
         + 4 * eta * (1 - 2 * eta) * snd (spec_step p eta as (reference_target as))
       \<le> sq_distance p"
proof -
  let ?ps = "zip as (reference_target as)"
  have ne': "?ps \<noteq> []" using ne by (cases as) (auto simp: reference_target_def)
  have unit': "\<forall>q\<in>set ?ps. (fst q)\<^sup>2 \<le> 1"
    using unit by (auto dest: set_zip_leftD)
  have lin: "\<forall>q\<in>set ?ps. snd q = 96 / 100 * fst q + 24 / 100"
    by (auto simp: reference_target_def zip_map2 zip_same_conv_map)
  show ?thesis
    unfolding spec_step_def fst_conv snd_conv sq_distance_def spec_loss_pairs
    by (rule distance_loss_pairs[OF ne' unit' lin
          spec_grad_weight_pairs spec_grad_bias_pairs])
qed

lemma spec_params_progress:
  assumes ne: "as \<noteq> []" and unit: "\<forall>a\<in>set as. a\<^sup>2 \<le> 1"
  shows "sq_distance (spec_params n p eta as (reference_target as))
         + 4 * eta * (1 - 2 * eta) * sum_list (spec_losses n p eta as (reference_target as))
       \<le> sq_distance p"
proof (induction n arbitrary: p)
  case 0
  show ?case by simp
next
  case (Suc n)
  let ?p' = "fst (spec_step p eta as (reference_target as))"
  have "sq_distance (spec_params (Suc n) p eta as (reference_target as))
         + 4 * eta * (1 - 2 * eta) * sum_list (spec_losses (Suc n) p eta as (reference_target as))
      = (sq_distance (spec_params n ?p' eta as (reference_target as))
         + 4 * eta * (1 - 2 * eta) * sum_list (spec_losses n ?p' eta as (reference_target as)))
        + 4 * eta * (1 - 2 * eta) * snd (spec_step p eta as (reference_target as))"
    by (simp add: algebra_simps)
  also have "\<dots> \<le> sq_distance ?p'
        + 4 * eta * (1 - 2 * eta) * snd (spec_step p eta as (reference_target as))"
    using Suc.IH[of ?p'] by simp
  also have "\<dots> \<le> sq_distance p"
    by (rule spec_step_progress[OF ne unit])
  finally show ?case .
qed

lemma spec_losses_antimono:
  assumes len: "length as = length ts" and ne: "as \<noteq> []"
    and unit: "\<forall>a\<in>set as. a\<^sup>2 \<le> 1" and eta: "0 \<le> eta" "eta \<le> 1 / 2"
  shows "i \<le> j \<Longrightarrow> j < n \<Longrightarrow>
    spec_losses n p eta as ts ! j \<le> spec_losses n p eta as ts ! i"
proof (induction j)
  case 0
  then show ?case by simp
next
  case (Suc j)
  show ?case
  proof (cases "i = Suc j")
    case True
    then show ?thesis by simp
  next
    case False
    with Suc.prems have "i \<le> j" "j < n" by simp_all
    from Suc.IH[OF this]
      spec_losses_nonincreasing[OF len ne unit eta, of j n p] Suc.prems(2)
    show ?thesis by simp
  qed
qed

lemma last_loss_le_mean:
  assumes len: "length as = length ts" and ne: "as \<noteq> []"
    and unit: "\<forall>a\<in>set as. a\<^sup>2 \<le> 1" and eta: "0 \<le> eta" "eta \<le> 1 / 2"
  shows "real (Suc n) * spec_losses (Suc n) p eta as ts ! n
       \<le> sum_list (spec_losses (Suc n) p eta as ts)"
proof -
  let ?cs = "spec_losses (Suc n) p eta as ts"
  have "real (Suc n) * ?cs ! n = (\<Sum>i = 0..<Suc n. ?cs ! n)"
    by (simp del: spec_losses.simps)
  also have "\<dots> \<le> (\<Sum>i = 0..<Suc n. ?cs ! i)"
  proof (rule sum_mono)
    fix i assume "i \<in> {0..<Suc n}"
    then have "i \<le> n" "n < Suc n" by auto
    from spec_losses_antimono[OF len ne unit eta this]
    show "?cs ! n \<le> ?cs ! i" .
  qed
  also have "\<dots> = sum_list ?cs"
    by (simp add: sum_list_sum_nth del: spec_losses.simps)
  finally show ?thesis .
qed

lemma initial_sq_distance_bound:
  fixes w0 b0 :: real
  assumes "0 \<le> w0" "w0 < 1" "0 \<le> b0" "b0 < 1"
  shows "sq_distance (w0, b0) < 3748 / 2500"
proof -
  have "\<bar>w0 - 96 / 100\<bar> \<le> \<bar>96 / 100\<bar>" using assms by linarith
  then have w: "(w0 - 96 / 100)\<^sup>2 \<le> (96 / 100)\<^sup>2"
    by (rule abs_le_square_iff[THEN iffD1])
  have "\<bar>b0 - 24 / 100\<bar> < 76 / 100" using assms by linarith
  then have "\<bar>b0 - 24 / 100\<bar>\<^sup>2 < (76 / 100)\<^sup>2"
    by (intro power_strict_mono) simp_all
  then have b: "(b0 - 24 / 100)\<^sup>2 < (76 / 100)\<^sup>2"
    by simp
  from w b show ?thesis by (simp add: sq_distance_def power2_eq_square)
qed

text \<open>
  Claim C9, as amended. After 200 epochs on the reference data (1000 inputs in
  \<open>[0, 1)\<close>, targets \<open>0.96 * x + 0.24\<close>, learning rate 0.1) from a weight and a bias
  drawn in \<open>[0, 1)\<close>, the run returns; the squared distance of the final
  (weight, bias) from \<open>(0.96, 0.24)\<close> plus \<open>8 / 25\<close> of the sum of the 200 recorded
  losses is at most the initial squared distance, to within 0.001; and the last
  recorded loss is below 0.024. So the loss converges and the parameters approach the
  generating ones as fast as the losses are large, but the 0.05 tolerance on the
  parameters is not reached on every draw. (In exact arithmetic the first bound holds
  without the 0.001, which is a margin above what rounding moves.)
\<close>

theorem reference_run_progress:
  assumes "length np_x = 1000" and "\<forall>a\<in>set np_x. 0 \<le> a \<and> a < 1"
    and "0 \<le> w0" and "w0 < 1" and "0 \<le> b0" and "b0 < 1"
  shows "\<exists>r cs w200 b200. notebook_run w0 b0 np_x = Inr r
           \<and> loss_history r = map (\<lambda>c. Scalar (Num c)) cs
           \<and> length cs = 200
           \<and> vars r = store_of w200 b200 (1 / 10)
           \<and> (w200 - 96 / 100)\<^sup>2 + (b200 - 24 / 100)\<^sup>2 + 8 / 25 * sum_list cs
              \<le> (w0 - 96 / 100)\<^sup>2 + (b0 - 24 / 100)\<^sup>2 + 1 / 1000
           \<and> cs ! 199 < 3 / 125"
proof -
  let ?ts = "reference_target np_x"
  let ?p = "spec_params 200 (w0, b0) (1 / 10) np_x ?ts"
  let ?cs = "spec_losses 200 (w0, b0) (1 / 10) np_x ?ts"
  have len: "length np_x = length ?ts" by (simp add: reference_target_def)
  have ne: "np_x \<noteq> []" using assms(1) by auto
  have unit: "\<forall>a\<in>set np_x. a\<^sup>2 \<le> 1"
    using assms(2) by (auto intro: unit_interval_sq)
  from training_numeric[OF len ne, of 200 w0 b0 "1 / 10"]
  obtain r where r: "notebook_run w0 b0 np_x = Inr r"
      "loss_history r = map (\<lambda>c. Scalar (Num c)) ?cs"
      "vars r = store_of (fst ?p) (snd ?p) (1 / 10)"
    by (auto simp: notebook_run_def initial_store_def)
  have prog: "sq_distance ?p + 8 / 25 * sum_list ?cs \<le> sq_distance (w0, b0)"
    using spec_params_progress[OF ne unit, of 200 "(w0, b0)" "1 / 10"] by simp
  have D0: "sq_distance (w0, b0) < 3748 / 2500"
    by (rule initial_sq_distance_bound[OF assms(3-6)])
  have "0 \<le> sq_distance ?p" by (simp add: sq_distance_def)
  with prog D0 have sum: "8 / 25 * sum_list ?cs < 3748 / 2500" by simp
  have "real (Suc 199) * ?cs ! 199 \<le> sum_list ?cs"
    using last_loss_le_mean[OF len ne unit, of "1 / 10" 199 "(w0, b0)"] by simp
  with sum have last: "?cs ! 199 < 3 / 125" by simp
  have "(fst ?p - 96 / 100)\<^sup>2 + (snd ?p - 24 / 100)\<^sup>2 + 8 / 25 * sum_list ?cs
      \<le> (w0 - 96 / 100)\<^sup>2 + (b0 - 24 / 100)\<^sup>2 + 1 / 1000"
    using prog by (simp add: sq_distance_def)
  with r last show ?thesis
    by (intro exI[of _ r] exI[of _ ?cs] exI[of _ "fst ?p"] exI[of _ "snd ?p"]) simp
qed

theorem reference_run_progress_witness:
  "\<exists>r cs w200 b200. notebook_run (3 / 50) (18 / 25) slow_xs = Inr r
           \<and> loss_history r = map (\<lambda>c. Scalar (Num c)) cs
           \<and> length cs = 200
           \<and> vars r = store_of w200 b200 (1 / 10)
           \<and> (w200 - 96 / 100)\<^sup>2 + (b200 - 24 / 100)\<^sup>2 + 8 / 25 * sum_list cs
              \<le> (3 / 50 - 96 / 100)\<^sup>2 + (18 / 25 - 24 / 100)\<^sup>2 + 1 / 1000
           \<and> cs ! 199 < 3 / 125"
  using reference_run_progress[OF slow_xs_length, of "3 / 50" "18 / 25"] slow_xs_range
  by (simp add: list_all_iff)

section \<open>The recorded losses\<close>

lemma fl_sum_nan_or_ge_zero:
  "list_all fl_nan_or_ge_zero as \<Longrightarrow> fl_nan_or_ge_zero (fl_sum as)"
proof (induction as)
  case Nil
  show ?case by (simp add: fl_sum_def fl_nan_or_ge_zero_def)
next
  case (Cons a as)
  then have a: "fl_nan_or_ge_zero a" and r: "fl_nan_or_ge_zero (fl_sum as)" by simp_all
  have "fl_sum (a # as) = fl_add a (fl_sum as)" by (simp add: fl_sum_def)
  with a r show ?case
    by (cases a; cases "fl_sum as") (simp_all add: fl_nan_or_ge_zero_def)
qed

lemma fl_div_count_nan_or_ge_zero:
  "fl_nan_or_ge_zero a \<Longrightarrow> fl_nan_or_ge_zero (fl_div_count a n)"
  by (cases a) (simp_all add: fl_nan_or_ge_zero_def)

lemma fl_square_nan_or_ge_zero: "fl_nan_or_ge_zero (fl_mul a a)"
  by (cases a) (simp_all add: fl_nan_or_ge_zero_def)

lemma elements_map_tensor: "elements (map_tensor f t) = map f (elements t)"
  by (cases t) simp_all

lemma mean_square_nan_or_ge_zero:
  "tensor_nan_or_ge_zero (mean_tensor (map_tensor (\<lambda>a. fl_mul a a) t))"
  unfolding tensor_nan_or_ge_zero_def mean_tensor_def
  by (simp add: elements_map_tensor fl_div_count_nan_or_ge_zero fl_sum_nan_or_ge_zero
      list_all_iff fl_square_nan_or_ge_zero)

lemma eval_loss_nan_or_ge_zero:
  assumes "eval s fd loss = Inr l"
  shows "tensor_nan_or_ge_zero l"
proof (cases "eval s fd (Sub y target)")
  case (Inl err)
  with assms show ?thesis by (simp add: loss_def)
next
  case (Inr t)
  with assms have "l = mean_tensor (map_tensor (\<lambda>a. fl_mul a a) t)"
    by (simp add: loss_def)
  then show ?thesis by (simp add: mean_square_nan_or_ge_zero)
qed

lemma train_loss_nan_or_ge_zero:
  assumes "train s [u, v] = Inr (outs, s')"
  shows "list_all tensor_nan_or_ge_zero outs"
proof -
  from assms obtain l where "eval s (feed_of u v) loss = Inr l" "outs = [l]"
    by (auto simp: train_unfold split: sum.splits option.splits prod.splits)
  then show ?thesis by (simp add: eval_loss_nan_or_ge_zero)
qed

lemma training_loop_nan_or_ge_zero:
  assumes "training_loop es u v r = Inr r'"
    and "list_all tensor_nan_or_ge_zero (loss_history r)"
  shows "list_all tensor_nan_or_ge_zero (loss_history r')"
  using assms
proof (induction es arbitrary: r)
  case Nil
  then show ?case by simp
next
  case (Cons e es)
  from Cons.prems(1) obtain outs s' l rest where
    t: "train (vars r) [u, v] = Inr (outs, s')" and o: "outs = l # rest"
    by (auto split: sum.splits prod.splits list.splits)
  from train_loss_nan_or_ge_zero[OF t] o have l: "tensor_nan_or_ge_zero l" by simp
  show ?case
    using Cons.prems t o l
    by (auto intro!: Cons.IH split: if_splits)
qed

lemma spec_losses_first:
  "spec_losses (Suc n) p eta as ts ! 0 = spec_loss (fst p) (snd p) as ts"
  by (simp add: spec_step_def)

lemma reference_loss_le_distance:
  assumes ne: "as \<noteq> []" and unit: "\<forall>a\<in>set as. a\<^sup>2 \<le> 1"
  shows "spec_loss w0 b0 as (reference_target as) \<le> 2 * sq_distance (w0, b0)"
proof -
  let ?ps = "zip as (reference_target as)"
  have n: "0 < real (length ?ps)" using ne by (simp add: reference_target_def)
  have "(\<Sum>q\<leftarrow>?ps. ((w0 * fst q + b0) - snd q)\<^sup>2)
      \<le> (\<Sum>q\<leftarrow>?ps. 2 * sq_distance (w0, b0))"
  proof (rule sum_list_mono)
    fix q assume q: "q \<in> set ?ps"
    have "fst q \<in> set as"
      using set_zip_leftD[of "fst q" "snd q" as "reference_target as"] q by simp
    with unit have u: "(fst q)\<^sup>2 \<le> 1" by blast
    from q have "snd q = 96 / 100 * fst q + 24 / 100"
      by (auto simp: reference_target_def zip_map2 zip_same_conv_map)
    then have eq: "(w0 * fst q + b0) - snd q = (w0 - 96 / 100) * fst q + (b0 - 24 / 100)"
      by (simp add: algebra_simps)
    show "((w0 * fst q + b0) - snd q)\<^sup>2 \<le> 2 * sq_distance (w0, b0)"
      unfolding eq sq_distance_def fst_conv snd_conv
      by (rule affine_sq_bound[OF u])
  qed
  also have "\<dots> = real (length ?ps) * (2 * sq_distance (w0, b0))"
    by (simp add: sum_list_triv)
  finally show ?thesis
    unfolding spec_loss_pairs using n by (simp add: pos_divide_le_eq mult.commute)
qed

text \<open>
  Claim C10 says that every recorded loss is non-negative for every input batch. On
  empty batches the 200 recorded losses are \<open>NaN\<close>, and \<open>0 \<le> NaN\<close> is false.
\<close>

theorem empty_batch_losses_are_nan:
  "map_sum id loss_history (training 200 (initial_store 0 0) (np_array []) (np_array [])) =
     Inr (replicate 200 (Scalar NaN))
   \<and> \<not> tensor_ge_zero (Scalar NaN)"
proof -
  have "map_sum id (\<lambda>r. (loss_history r, vars r))
          (training 200 (initial_store 0 0) (np_array []) (np_array [])) =
        Inr (replicate 200 (Scalar NaN), initial_store 0 0)"
    by (simp only: training_spec_train initial_store_def spec_train_empty)
  then have "map_sum id loss_history (training 200 (initial_store 0 0) (np_array []) (np_array [])) =
     Inr (replicate 200 (Scalar NaN))"
    by (cases "training 200 (initial_store 0 0) (np_array []) (np_array [])") auto
  then show ?thesis by (simp add: tensor_ge_zero_def)
qed

text \<open>
  Claim C10, as amended. No recorded loss is negative: for every input batch, all
  values of the variables and every number of epochs, each element of the loss history
  of a run that returns is \<open>NaN\<close> or compares \<open>0 \<le>\<close>. (\<open>NaN\<close> is what an empty batch
  records; in the backend a diverging run records an infinite loss, which compares
  \<open>0 \<le>\<close>, and then \<open>NaN\<close>.) On the reference data (1000 inputs in \<open>[0, 1)\<close>, targets
  \<open>0.96 * x + 0.24\<close>, learning rate 0.1, weight and bias drawn in \<open>[0, 1)\<close>) the run
  returns and each of the 200 recorded losses is a number, at least 0 and below 3.
\<close>

theorem recorded_losses_never_negative:
  "(training epochs s u v = Inr r \<longrightarrow> (\<forall>l\<in>set (loss_history r). tensor_nan_or_ge_zero l))
   \<and> (length np_x = 1000 \<and> (\<forall>a\<in>set np_x. 0 \<le> a \<and> a < 1)
        \<and> 0 \<le> w0 \<and> w0 < 1 \<and> 0 \<le> b0 \<and> b0 < 1 \<longrightarrow>
      (\<exists>r' cs. notebook_run w0 b0 np_x = Inr r'
         \<and> loss_history r' = map (\<lambda>c. Scalar (Num c)) cs
         \<and> length cs = 200
         \<and> (\<forall>c\<in>set cs. 0 \<le> c \<and> c < 3)))"
proof (intro conjI impI)
  assume "training epochs s u v = Inr r"
  from training_loop_nan_or_ge_zero[OF this[unfolded training_def]]
  show "\<forall>l\<in>set (loss_history r). tensor_nan_or_ge_zero l"
    by (simp add: list_all_iff)
next
  assume h: "length np_x = 1000 \<and> (\<forall>a\<in>set np_x. 0 \<le> a \<and> a < 1)
        \<and> 0 \<le> w0 \<and> w0 < 1 \<and> 0 \<le> b0 \<and> b0 < 1"
  let ?ts = "reference_target np_x"
  let ?cs = "spec_losses 200 (w0, b0) (1 / 10) np_x ?ts"
  have len: "length np_x = length ?ts" by (simp add: reference_target_def)
  have ne: "np_x \<noteq> []" using h by auto
  have unit: "\<forall>a\<in>set np_x. a\<^sup>2 \<le> 1"
    using h by (auto intro: unit_interval_sq)
  from training_numeric[OF len ne, of 200 w0 b0 "1 / 10"]
  obtain r' where r: "notebook_run w0 b0 np_x = Inr r'"
      "loss_history r' = map (\<lambda>c. Scalar (Num c)) ?cs"
    by (auto simp: notebook_run_def initial_store_def)
  have first: "?cs ! 0 < 3"
  proof -
    have "?cs ! 0 = spec_loss w0 b0 np_x ?ts"
      using spec_losses_first[of 199 "(w0, b0)" "1 / 10" np_x ?ts] by simp
    also have "\<dots> \<le> 2 * sq_distance (w0, b0)"
      by (rule reference_loss_le_distance[OF ne unit])
    also have "\<dots> < 3"
      using initial_sq_distance_bound[of w0 b0] h by simp
    finally show ?thesis .
  qed
  have "\<forall>c\<in>set ?cs. 0 \<le> c \<and> c < 3"
  proof
    fix c assume "c \<in> set ?cs"
    then obtain i where i: "i < 200" "c = ?cs ! i"
      by (auto simp: in_set_conv_nth)
    have "0 \<le> c" using spec_losses_nonneg \<open>c \<in> set ?cs\<close> by blast
    moreover have "?cs ! i \<le> ?cs ! 0"
      using spec_losses_antimono[OF len ne unit, of "1 / 10" 0 i 200 "(w0, b0)"] i by simp
    ultimately show "0 \<le> c \<and> c < 3" using first i by simp
  qed
  with r show "\<exists>r' cs. notebook_run w0 b0 np_x = Inr r'
         \<and> loss_history r' = map (\<lambda>c. Scalar (Num c)) cs
         \<and> length cs = 200
         \<and> (\<forall>c\<in>set cs. 0 \<le> c \<and> c < 3)"
    by (intro exI[of _ r'] exI[of _ ?cs]) simp
qed

theorem recorded_losses_never_negative_witness:
  "(\<exists>r. training 2 (initial_store 0 0) (np_array [1000]) (np_array [1]) = Inr r
      \<and> loss_history r = [Scalar (Num 1), Scalar (Num ((999996 / 5)\<^sup>2))]
      \<and> (\<forall>l\<in>set (loss_history r). tensor_nan_or_ge_zero l))
   \<and> (\<exists>r' cs. notebook_run (3 / 50) (18 / 25) slow_xs = Inr r'
         \<and> loss_history r' = map (\<lambda>c. Scalar (Num c)) cs
         \<and> length cs = 200
         \<and> (\<forall>c\<in>set cs. 0 \<le> c \<and> c < 3))"
proof
  from training_numeric[of "[1000]" "[1]" 2 0 0 "1 / 10"]
  obtain r where r: "training 2 (initial_store 0 0) (np_array [1000]) (np_array [1]) = Inr r"
    and h: "loss_history r =
      map (\<lambda>c. Scalar (Num c)) (spec_losses 2 (0, 0) (1 / 10) [1000] [1])"
    by (auto simp: initial_store_def)
  have "spec_losses 2 (0, 0) (1 / 10) [1000] [1] = [1, (999996 / 5)\<^sup>2]"
    by (simp add: numeral_2_eq_2 spec_step_def spec_loss_def spec_grad_weight_def
        spec_grad_bias_def mean_list_def power2_eq_square)
  with h have "loss_history r = [Scalar (Num 1), Scalar (Num ((999996 / 5)\<^sup>2))]" by simp
  with r recorded_losses_never_negative[of 2 "initial_store 0 0" "np_array [1000]" "np_array [1]" r]
  show "\<exists>r. training 2 (initial_store 0 0) (np_array [1000]) (np_array [1]) = Inr r
      \<and> loss_history r = [Scalar (Num 1), Scalar (Num ((999996 / 5)\<^sup>2))]
      \<and> (\<forall>l\<in>set (loss_history r). tensor_nan_or_ge_zero l)"
    by blast
next
  from recorded_losses_never_negative[of _ _ _ _ _ slow_xs "3 / 50" "18 / 25"]
    slow_xs_length slow_xs_range
  show "\<exists>r' cs. notebook_run (3 / 50) (18 / 25) slow_xs = Inr r'
         \<and> loss_history r' = map (\<lambda>c. Scalar (Num c)) cs
         \<and> length cs = 200
         \<and> (\<forall>c\<in>set cs. 0 \<le> c \<and> c < 3)"
    by (simp add: list_all_iff)
qed

end
